theory Spec2Isabelle
  imports Complex_Main "HOL-Library.AList"
begin

section \<open>Python values and errors\<close>

text \<open>
  The workflow builders of \<^verbatim>\<open>fmriprep/workflows/base.py\<close> and
  \<^verbatim>\<open>fmriprep/workflows/bold/fit.py\<close> handle file paths, lists of file paths and
  \<^verbatim>\<open>None\<close>. A BOLD run is a path (single echo) or a list of paths (multi-echo); a
  precomputed derivative is a path or a list of paths.
\<close>

datatype pyval = PyNone | PyStr string | PyList "string list"

text \<open>Python truthiness: \<^verbatim>\<open>None\<close>, the empty string and the empty list are false.\<close>

fun truthy :: "pyval \<Rightarrow> bool" where
  "truthy PyNone = False"
| "truthy (PyStr s) = (s \<noteq> [])"
| "truthy (PyList xs) = (xs \<noteq> [])"

text \<open>
  The messages of the source, kept structured: the f-strings of the source interpolate
  exactly the fields carried here.
\<close>

datatype message =
    AbsentPhaseEncoding
      \<comment> \<open>"Fieldmap-less (SyN) estimation was requested, but PhaseEncodingDirection
          information appears to be absent."\<close>
  | IgnoreFieldmapsButSyn
      \<comment> \<open>'Option "--ignore fieldmaps" was set, but either "--use-syn-sdc" or "--force-syn"
          were given, so fieldmap-less estimation will be executed.'\<close>
  | SeveralFieldmaps "string list" string string
      \<comment> \<open>"Several fieldmaps <ids> are 'IntendedFor' <bold_file>, using id"\<close>
  | MismatchingShapes "(string \<times> nat list) list"
      \<comment> \<open>"Multi-echo images found with mismatching shapes" and one line
          "basename: shape" per echo\<close>
  | RequiresThreeEchos
      \<comment> \<open>"Multi-echo processing requires at least three different echos (found two)."\<close>
  | SophisticatedPepolar
      \<comment> \<open>"Sophisticated PEPOLAR schemes are unsupported."\<close>
  | EstimatorsUsed nat
      \<comment> \<open>"B0 field inhomogeneity map will be estimated with the following n estimator(s)"\<close>
  | SettingUpFieldmap string
      \<comment> \<open>'Setting-up fieldmap "id" ...'\<close>

datatype error =
    ValueError message
  | RuntimeError message
  | NotImplementedError message
  | IndexError
  | TypeError
  | KeyError string
  | UnpackError  \<comment> \<open>the \<^verbatim>\<open>ValueError\<close> of unpacking an empty \<^verbatim>\<open>zip\<close>\<close>

datatype level = ERROR | WARNING | INFO

type_synonym log_entry = "level \<times> message"

text \<open>
  \<^verbatim>\<open>niworkflows.utils.connections.listify\<close>: a string becomes a one-element list, a list
  stays, \<^verbatim>\<open>None\<close> stays \<^verbatim>\<open>None\<close>.
\<close>

fun listify :: "pyval \<Rightarrow> pyval" where
  "listify (PyStr s) = PyList [s]"
| "listify (PyList xs) = PyList xs"
| "listify PyNone = PyNone"

text \<open>\<^verbatim>\<open>listify(x)[0]\<close>: indexing the empty list raises, and so does indexing \<^verbatim>\<open>None\<close>.\<close>

fun listify0 :: "pyval \<Rightarrow> error + string" where
  "listify0 x =
     (case listify x of
        PyList [] \<Rightarrow> Inl IndexError
      | PyList (y # ys) \<Rightarrow> Inr y
      | _ \<Rightarrow> Inl TypeError)"

section \<open>Fieldmap estimators and their mapping to BOLD runs\<close>

datatype EstimatorType = UNKNOWN | PEPOLAR | PHASEDIFF | MAPPED | ANAT

record source =
  path :: string
  suffix :: string

record estimator =
  bids_id :: string
  est_method :: EstimatorType
  sources :: "source list"

text \<open>\<^verbatim>\<open>use_syn: bool | str\<close>; the string \<^verbatim>\<open>"error"\<close> escalates.\<close>

datatype syn_opt = SynBool bool | SynStr string

fun syn_truthy :: "syn_opt \<Rightarrow> bool" where
  "syn_truthy (SynBool b) = b"
| "syn_truthy (SynStr s) = (s \<noteq> [])"

text \<open>
  The collaborators of \<^verbatim>\<open>map_fieldmap_estimation\<close>, taken as parameters:
  \<^verbatim>\<open>sdcflows.utils.wrangler.find_estimators\<close> for the layout, subject and filters at hand,
  as a function of its \<^verbatim>\<open>fmapless\<close> and \<^verbatim>\<open>force_fmapless\<close> arguments, and
  \<^verbatim>\<open>get_estimator(layout, bold_file)\<close>, the identifiers declared for a BOLD file, in
  declaration order.
\<close>

record sdc_env =
  find_estimators :: "bool \<Rightarrow> bool \<Rightarrow> estimator list"
  get_estimator :: "string \<Rightarrow> string list"

text \<open>\<^verbatim>\<open>bold_files = (listify(bold_file)[0] for bold_file in bold_data)\<close>\<close>

fun first_files :: "pyval list \<Rightarrow> error + string list" where
  "first_files [] = Inr []"
| "first_files (b # bs) =
     (case listify0 b of
        Inl e \<Rightarrow> Inl e
      | Inr f \<Rightarrow> (case first_files bs of Inl e \<Rightarrow> Inl e | Inr fs \<Rightarrow> Inr (f # fs)))"

text \<open>
  The loop over \<^verbatim>\<open>all_estimators.items()\<close>: a key with several identifiers logs one
  warning and is cut to its first identifier (\<^verbatim>\<open>estimator_key[1:] = []\<close>).
\<close>

fun several_loop ::
  "(string \<times> string list) list \<Rightarrow> log_entry list \<times> (string \<times> string list) list" where
  "several_loop [] = ([], [])"
| "several_loop ((bold_file, estimator_key) # items) =
     (let (lg, items') = several_loop items in
      if length estimator_key > 1
      then ((WARNING, SeveralFieldmaps estimator_key bold_file (estimator_key ! 0)) # lg,
            (bold_file, take 1 estimator_key) # items')
      else (lg, (bold_file, estimator_key) # items'))"

text \<open>
  \<^verbatim>\<open>map_fieldmap_estimation\<close> (base.py). A dictionary is an association list in
  insertion order; \<^const>\<open>AList.update\<close> overwrites a key in place and appends a new one,
  as a Python \<^verbatim>\<open>dict\<close> does. The result is the log and either the exception or the pair
  \<^verbatim>\<open>(fmap_estimators, estimator_map)\<close>.
\<close>

definition map_fieldmap_estimation ::
  "sdc_env \<Rightarrow> pyval list \<Rightarrow> bool \<Rightarrow> syn_opt \<Rightarrow> bool \<Rightarrow>
   log_entry list \<times> (error + estimator list \<times> (string \<times> string) list)" where
  "map_fieldmap_estimation env bold_data ignore_fieldmaps use_syn force_syn =
     (if \<not> (\<not> ignore_fieldmaps \<or> syn_truthy use_syn \<or> force_syn) then ([], Inr ([], []))
      else
        let fmap_estimators =
              find_estimators env
                (syn_truthy use_syn \<or> ignore_fieldmaps \<and> force_syn)
                (force_syn \<or> ignore_fieldmaps \<and> syn_truthy use_syn)
        in
        if fmap_estimators = [] then
          (if syn_truthy use_syn then
             ([(ERROR, AbsentPhaseEncoding)],
              if use_syn = SynStr ''error'' then Inl (ValueError AbsentPhaseEncoding)
              else Inr ([], []))
           else ([], Inr ([], [])))
        else
          let anat = (ignore_fieldmaps \<and> list_ex (\<lambda>f. est_method f = ANAT) fmap_estimators);
              log1 = (if anat then [(INFO, IgnoreFieldmapsButSyn)] else []);
              fmap_estimators =
                (if anat then filter (\<lambda>f. est_method f = ANAT) fmap_estimators
                 else fmap_estimators);
              all_ids = set (map bids_id fmap_estimators)
          in
          case first_files bold_data of
            Inl e \<Rightarrow> (log1, Inl e)
          | Inr bold_files \<Rightarrow>
              let all_estimators =
                    fold (\<lambda>bold_file d.
                            AList.update bold_file
                              (filter (\<lambda>fmap_id. fmap_id \<in> all_ids) (get_estimator env bold_file)) d)
                         bold_files [];
                  (log2, all_estimators) = several_loop all_estimators;
                  estimator_map =
                    map (\<lambda>(bold_file, estimator_key). (bold_file, estimator_key ! 0))
                      (filter (\<lambda>(bold_file, estimator_key). estimator_key \<noteq> []) all_estimators);
                  fmap_estimators =
                    filter (\<lambda>f. bids_id f \<in> snd ` set estimator_map) fmap_estimators
              in (log1 @ log2, Inr (fmap_estimators, estimator_map)))"


text \<open>
  The estimator set-up loop of \<^verbatim>\<open>init_single_subject_fit_wf\<close> (base.py), which follows
  the call of \<^verbatim>\<open>map_fieldmap_estimation\<close>: MAPPED and PHASEDIFF estimators are connected
  internally by SDCFlows, a PEPOLAR estimator must have two sources with suffixes among
  \<^verbatim>\<open>epi\<close>, \<^verbatim>\<open>bold\<close>, \<^verbatim>\<open>sbref\<close>, an ANAT estimator gets a SyN preprocessing workflow
  on its \<^verbatim>\<open>bold\<close> and \<^verbatim>\<open>sbref\<close> sources.
\<close>

datatype est_setup =
    Internal
  | PepolarInputs "string list"
  | SynPreprocessing "string list"
  | NoSetup

definition setup_estimator :: "estimator \<Rightarrow> error + est_setup" where
  "setup_estimator e =
     (if est_method e = MAPPED \<or> est_method e = PHASEDIFF then Inr Internal
      else
        let suffices = map suffix (sources e) in
        if est_method e = PEPOLAR then
          (if length suffices = 2 \<and>
              list_all (\<lambda>suf. suf = ''epi'' \<or> suf = ''bold'' \<or> suf = ''sbref'') suffices
           then Inr (PepolarInputs (map path (sources e)))
           else Inl (NotImplementedError SophisticatedPepolar))
        else if est_method e = ANAT then
          Inr (SynPreprocessing
                 (map path (filter (\<lambda>s. suffix s = ''bold'' \<or> suffix s = ''sbref'') (sources e))))
        else Inr NoSetup)"

fun setup_loop :: "estimator list \<Rightarrow> log_entry list \<times> (error + est_setup list)" where
  "setup_loop [] = ([], Inr [])"
| "setup_loop (e # es) =
     (case setup_estimator e of
        Inl err \<Rightarrow> ([(INFO, SettingUpFieldmap (bids_id e))], Inl err)
      | Inr s \<Rightarrow>
          (let (lg, r) = setup_loop es in
           ((INFO, SettingUpFieldmap (bids_id e)) # lg,
            case r of Inl err \<Rightarrow> Inl err | Inr ss \<Rightarrow> Inr (s # ss))))"

text \<open>
  The fieldmap part of \<^verbatim>\<open>init_single_subject_fit_wf\<close>: the call of
  \<^verbatim>\<open>map_fieldmap_estimation\<close> and, under \<^verbatim>\<open>if fmap_estimators:\<close>, the set-up loop.
  The result carries the estimators, the map and the set-ups performed.
\<close>

definition init_single_subject_fit_wf_fieldmaps ::
  "sdc_env \<Rightarrow> pyval list \<Rightarrow> bool \<Rightarrow> syn_opt \<Rightarrow> bool \<Rightarrow>
   log_entry list \<times> (error + estimator list \<times> (string \<times> string) list \<times> est_setup list)" where
  "init_single_subject_fit_wf_fieldmaps env bold_data ignore_fieldmaps use_syn force_syn =
     (case map_fieldmap_estimation env bold_data ignore_fieldmaps use_syn force_syn of
        (lg, Inl err) \<Rightarrow> (lg, Inl err)
      | (lg, Inr (fmap_estimators, estimator_map)) \<Rightarrow>
          if fmap_estimators \<noteq> [] then
            (let (lg2, r) = setup_loop fmap_estimators in
             (lg @ [(INFO, EstimatorsUsed (length fmap_estimators))] @ lg2,
              case r of
                Inl err \<Rightarrow> Inl err
              | Inr ss \<Rightarrow> Inr (fmap_estimators, estimator_map, ss)))
          else (lg, Inr (fmap_estimators, estimator_map, [])))"

subsection \<open>The notions the properties are stated with\<close>

text \<open>
  The estimators known when the runs are matched: none when estimation is switched off,
  otherwise the discovered ones, cut down to the ANAT ones when fieldmaps are ignored and an
  ANAT estimator exists.
\<close>

definition known_estimators :: "sdc_env \<Rightarrow> bool \<Rightarrow> syn_opt \<Rightarrow> bool \<Rightarrow> estimator list" where
  "known_estimators env ignore_fieldmaps use_syn force_syn =
     (if \<not> (\<not> ignore_fieldmaps \<or> syn_truthy use_syn \<or> force_syn) then []
      else
        let found =
              find_estimators env
                (syn_truthy use_syn \<or> ignore_fieldmaps \<and> force_syn)
                (force_syn \<or> ignore_fieldmaps \<and> syn_truthy use_syn)
        in if ignore_fieldmaps \<and> list_ex (\<lambda>f. est_method f = ANAT) found
           then filter (\<lambda>f. est_method f = ANAT) found else found)"

text \<open>
  The candidates of a BOLD file: its declared identifiers, in declaration order, that
  belong to a known estimator.
\<close>

definition candidates :: "sdc_env \<Rightarrow> bool \<Rightarrow> syn_opt \<Rightarrow> bool \<Rightarrow> string \<Rightarrow> string list" where
  "candidates env ignore_fieldmaps use_syn force_syn bold_file =
     filter (\<lambda>fmap_id. fmap_id \<in> bids_id ` set (known_estimators env ignore_fieldmaps use_syn force_syn))
       (get_estimator env bold_file)"

text \<open>The keys of the runs: the first file of each entry of \<^verbatim>\<open>bold_data\<close>.\<close>

definition series_keys :: "pyval list \<Rightarrow> string set" where
  "series_keys bold_data = {f. \<exists>b \<in> set bold_data. listify0 b = Inr f}"

text \<open>The warnings of the log that are about a given BOLD file.\<close>

fun warning_about :: "string \<Rightarrow> log_entry \<Rightarrow> bool" where
  "warning_about b (WARNING, SeveralFieldmaps ks b' c) = (b' = b)"
| "warning_about b _ = False"


subsection \<open>Example inputs\<close>

text \<open>
  Two estimators, a single-echo run that declares both and a three-echo run that declares
  none.
\<close>

definition example_fmap0 :: estimator where
  "example_fmap0 = \<lparr>bids_id = ''fmap_0'', est_method = PHASEDIFF, sources = []\<rparr>"

definition example_fmap1 :: estimator where
  "example_fmap1 =
     \<lparr>bids_id = ''fmap_1'', est_method = PEPOLAR,
      sources = [\<lparr>path = ''dir-AP_epi.nii.gz'', suffix = ''epi''\<rparr>,
                 \<lparr>path = ''dir-PA_epi.nii.gz'', suffix = ''epi''\<rparr>]\<rparr>"

definition example_env :: sdc_env where
  "example_env =
     \<lparr>find_estimators = (\<lambda>fmapless force_fmapless. [example_fmap0, example_fmap1]),
      get_estimator = (\<lambda>bold_file. if bold_file = ''run-1_bold'' then [''fmap_0'', ''fmap_1''] else [])\<rparr>"

definition example_bold :: "pyval list" where
  "example_bold = [PyStr ''run-1_bold'', PyList [''run-2_echo-1_bold'', ''run-2_echo-2_bold'', ''run-2_echo-3_bold'']]"

text \<open>A subject without any estimator.\<close>

definition empty_env :: sdc_env where
  "empty_env =
     \<lparr>find_estimators = (\<lambda>fmapless force_fmapless. []),
      get_estimator = (\<lambda>bold_file. [''fmap_0''])\<rparr>"

subsection \<open>Auxiliary definitions\<close>

text \<open>The dictionary of the runs and their candidate lists.\<close>

definition run_dict :: "(string \<Rightarrow> string list) \<Rightarrow> string list \<Rightarrow> (string \<times> string list) list" where
  "run_dict c fs = fold (\<lambda>b d. AList.update b (c b) d) fs []"

text \<open>The estimator map computed from the dictionary.\<close>

definition final_map :: "(string \<times> string list) list \<Rightarrow> (string \<times> string) list" where
  "final_map d =
     map (\<lambda>(bold_file, estimator_key). (bold_file, estimator_key ! 0))
       (filter (\<lambda>(bold_file, estimator_key). estimator_key \<noteq> []) (snd (several_loop d)))"

section \<open>Workflow graphs\<close>

text \<open>
  The nodes of the two workflows of \<^verbatim>\<open>fmriprep/workflows/bold/fit.py\<close>, under the names of
  the Python variables that hold them. \<^verbatim>\<open>inputnode\<close>, \<^verbatim>\<open>outputnode\<close>,
  \<^verbatim>\<open>validate_bold\<close> and \<^verbatim>\<open>fmap_select\<close> occur in both workflows.
\<close>

datatype node =
    inputnode | outputnode
  | hmcref_buffer | fmapref_buffer | hmc_buffer | fmapreg_buffer | regref_buffer
  | summary | func_fit_reports_wf
  | hmc_boldref_wf | ds_hmc_boldref_wf | validate_bold
  | bold_hmc_wf | ds_hmc_wf
  | enhance_boldref_wf | ds_coreg_boldref_wf
  | fmap_select | fmapreg_wf | itk_mat2txt | ds_fmapreg_wf | unwarp_wf
  | bold_reg_wf | ds_boldreg_wf
  | boldbuffer | echo_index | bold_source | bold_stc_wf | distortion_params
  | boldref_bold | boldref_fmap | join_echos | bold_t2s_wf

text \<open>
  What a port carries: nothing, a file or list of files set when the graph is built, a value
  taken from the configuration or the metadata (by name), a number, the output of a stage
  that runs later, or the exception a function node raises.
\<close>

datatype wire =
    Undefined
  | Const pyval
  | Setting string
  | Number nat
  | Output node string
  | Raises error

text \<open>
  A workflow under construction: the nodes of the graph, its edges (source node, source
  port, destination node, destination port), the inputs assigned on node objects through
  \<^verbatim>\<open>node.inputs.port = v\<close> (most recent first), and the iterables. Nodes are Python
  objects shared by reference, so an input may be assigned before or after the node is
  connected, and also on a node that never enters the graph.
\<close>

record workflow =
  nodes :: "node list"
  edges :: "(node \<times> string \<times> node \<times> string) list"
  inputs :: "((node \<times> string) \<times> wire) list"
  iterables :: "(node \<times> string \<times> nat list) list"

definition Workflow :: workflow where
  "Workflow = \<lparr>nodes = [], edges = [], inputs = [], iterables = []\<rparr>"

definition add_node :: "node \<Rightarrow> node list \<Rightarrow> node list" where
  "add_node n ns = (if n \<in> set ns then ns else ns @ [n])"

definition add_nodes :: "node list \<Rightarrow> workflow \<Rightarrow> workflow" where
  "add_nodes ns w = w\<lparr>nodes := fold add_node ns (nodes w)\<rparr>"

text \<open>
  \<^verbatim>\<open>workflow.connect([(src, dst, [(out, in), ...]), ...])\<close> adds the nodes it mentions
  and one edge per pair of ports.
\<close>

definition connect ::
  "(node \<times> node \<times> (string \<times> string) list) list \<Rightarrow> workflow \<Rightarrow> workflow" where
  "connect cs w =
     w\<lparr>nodes := fold add_node (concat (map (\<lambda>(src, dst, ports). [src, dst]) cs)) (nodes w),
       edges := edges w @
         concat (map (\<lambda>(src, dst, ports). map (\<lambda>(out, inp). (src, out, dst, inp)) ports) cs)\<rparr>"

definition set_input :: "node \<Rightarrow> string \<Rightarrow> wire \<Rightarrow> workflow \<Rightarrow> workflow" where
  "set_input n p v w = w\<lparr>inputs := ((n, p), v) # inputs w\<rparr>"

definition set_iterables :: "node \<Rightarrow> string \<Rightarrow> nat list \<Rightarrow> workflow \<Rightarrow> workflow" where
  "set_iterables n p vs w = w\<lparr>iterables := (n, p, vs) # iterables w\<rparr>"

subsection \<open>The metadata and the files a builder reads\<close>

record metadata =
  EchoTime :: "rat option"
  RepetitionTime :: "rat option"
  PhaseEncodingDirection :: "string option"
  SliceTiming :: "rat list option"

text \<open>
  The collaborators of the builders, taken as parameters: \<^verbatim>\<open>layout.get_metadata\<close>; the
  files that \<^verbatim>\<open>layout.get(return_type="file", ...)\<close> returns for the sbref query built
  from the BOLD files; the shape of an image, \<^verbatim>\<open>nb.load(f).shape\<close>; and
  \<^verbatim>\<open>config.workflow.ignore\<close>.
\<close>

record bold_env =
  get_metadata :: "string \<Rightarrow> metadata"
  layout_get_sbref :: "string list \<Rightarrow> string list"
  img_shape :: "string \<Rightarrow> nat list"
  ignore :: "string list"

text \<open>
  \<^verbatim>\<open>sorted(files, key=lambda f: layout.get_metadata(f).get("EchoTime"))\<close>. Python's sort is
  stable, as \<^const>\<open>sort_key\<close> is. With two or more files every key is compared, and a
  comparison with \<^verbatim>\<open>None\<close> raises \<^verbatim>\<open>TypeError\<close>; with fewer nothing is compared.
\<close>

definition sorted_by_echo_time :: "(string \<Rightarrow> metadata) \<Rightarrow> string list \<Rightarrow> error + string list" where
  "sorted_by_echo_time md fs =
     (if length fs \<le> 1 then Inr fs
      else if list_ex (\<lambda>f. EchoTime (md f) = None) fs then Inl TypeError
      else Inr (sort_key (\<lambda>f. the (EchoTime (md f))) fs))"

definition get_sbrefs :: "bold_env \<Rightarrow> string list \<Rightarrow> error + string list" where
  "get_sbrefs env bold_files =
     sorted_by_echo_time (get_metadata env) (layout_get_sbref env bold_files)"

text \<open>\<^verbatim>\<open>os.path.basename\<close>: what follows the last slash.\<close>

definition basename :: "string \<Rightarrow> string" where
  "basename p = rev (takeWhile (\<lambda>c. c \<noteq> CHR ''/'') (rev p))"

subsection \<open>The fit workflow\<close>

text \<open>
  The dictionary of precomputed derivatives: the keys \<^verbatim>\<open>hmc_boldref\<close> and
  \<^verbatim>\<open>coreg_boldref\<close>, present or not, and the dictionary under \<^verbatim>\<open>transforms\<close>
  (empty when the key is absent, as \<^verbatim>\<open>precomputed.get("transforms", {})\<close> reads it).
\<close>

record precomputed =
  hmc_boldref :: "pyval option"
  coreg_boldref :: "pyval option"
  transforms :: "(string \<times> pyval) list"

text \<open>\<^verbatim>\<open>d.get(k)\<close>\<close>

definition dict_get :: "(string \<times> pyval) list \<Rightarrow> string \<Rightarrow> pyval" where
  "dict_get d k = (case map_of d k of None \<Rightarrow> PyNone | Some v \<Rightarrow> v)"

text \<open>\<^verbatim>\<open>if fieldmap_id:\<close> for \<^verbatim>\<open>fieldmap_id: Optional[str]\<close>\<close>

fun id_truthy :: "string option \<Rightarrow> bool" where
  "id_truthy None = False"
| "id_truthy (Some s) = (s \<noteq> [])"

text \<open>The connections made before the stages (the first \<^verbatim>\<open>workflow.connect\<close>).\<close>

definition fit_connections :: "workflow \<Rightarrow> workflow" where
  "fit_connections w =
     connect
       [(hmcref_buffer, outputnode, [(''boldref'', ''hmc_boldref'')]),
        (regref_buffer, outputnode,
           [(''boldref'', ''coreg_boldref''),
            (''boldmask'', ''bold_mask'')]),
        (fmapreg_buffer, outputnode, [(''boldref2fmap_xfm'', ''boldref2fmap_xfm'')]),
        (hmc_buffer, outputnode, [(''hmc_xforms'', ''motion_xfm'')]),
        (inputnode, func_fit_reports_wf,
           [(''bold_file'', ''inputnode.source_file''),
            (''t1w_preproc'', ''inputnode.t1w_preproc''),
            (''t1w_mask'', ''inputnode.t1w_mask''),
            (''t1w_dseg'', ''inputnode.t1w_dseg''),
            (''subjects_dir'', ''inputnode.subjects_dir''),
            (''subject_id'', ''inputnode.subject_id'')]),
        (outputnode, func_fit_reports_wf,
           [(''coreg_boldref'', ''inputnode.coreg_boldref''),
            (''boldref2anat_xfm'', ''inputnode.boldref2anat_xfm'')]),
        (summary, func_fit_reports_wf, [(''out_report'', ''inputnode.summary_report'')])]
       w"

text \<open>Stage 1: generate the motion correction boldref, unless \<^verbatim>\<open>have_hmcref\<close>.\<close>

definition fit_stage1 :: "string \<Rightarrow> precomputed \<Rightarrow> workflow \<Rightarrow> workflow" where
  "fit_stage1 bold_file pre w =
     (case hmc_boldref pre of
        None \<Rightarrow>
          (let w = set_input hmc_boldref_wf ''inputnode.dummy_scans''
                     (Setting ''config.workflow.dummy_scans'') w;
               w = set_input ds_hmc_boldref_wf ''inputnode.source_files''
                     (Const (PyList [bold_file])) w
           in connect
                [(hmc_boldref_wf, hmcref_buffer,
                    [(''outputnode.bold_file'', ''bold_file''),
                     (''outputnode.boldref'', ''boldref'')]),
                 (hmcref_buffer, ds_hmc_boldref_wf, [(''boldref'', ''inputnode.boldref'')]),
                 (hmc_boldref_wf, summary,
                    [(''outputnode.algo_dummy_scans'', ''algo_dummy_scans'')]),
                 (hmc_boldref_wf, func_fit_reports_wf,
                    [(''outputnode.validation_report'', ''inputnode.validation_report'')])]
                w)
      | Some boldref \<Rightarrow>
          (let w = set_input validate_bold ''in_file'' (Const (PyStr bold_file)) w;
               w = set_input hmcref_buffer ''boldref'' (Const boldref) w
           in connect
                [(validate_bold, hmcref_buffer, [(''out_file'', ''bold_file'')]),
                 (validate_bold, func_fit_reports_wf,
                    [(''out_report'', ''inputnode.validation_report'')])]
                w))"

text \<open>Stage 2: estimate head motion, unless \<^verbatim>\<open>hmc_xforms\<close> is true.\<close>

definition fit_stage2 :: "string \<Rightarrow> precomputed \<Rightarrow> workflow \<Rightarrow> workflow" where
  "fit_stage2 bold_file pre w =
     (let hmc_xforms = dict_get (transforms pre) ''hmc'' in
      if \<not> truthy hmc_xforms then
        (let w = set_input ds_hmc_wf ''inputnode.source_files'' (Const (PyList [bold_file])) w
         in connect
              [(hmcref_buffer, bold_hmc_wf,
                  [(''boldref'', ''inputnode.raw_ref_image''),
                   (''bold_file'', ''inputnode.bold_file'')]),
               (bold_hmc_wf, ds_hmc_wf, [(''outputnode.xforms'', ''inputnode.xforms'')]),
               (ds_hmc_wf, hmc_buffer, [(''outputnode.xforms'', ''hmc_xforms'')])]
              w)
      else set_input hmc_buffer ''hmc_xforms'' (Const hmc_xforms) w)"

text \<open>
  Stage 3: create the coregistration reference, unless \<^verbatim>\<open>have_coregref\<close>. Fieldmap
  correction happens only here, under \<^verbatim>\<open>if fieldmap_id:\<close>, and the registration to the
  fieldmap only under \<^verbatim>\<open>if not boldref2fmap_xform:\<close>.
\<close>

definition fit_fmapreg :: "precomputed \<Rightarrow> workflow \<Rightarrow> workflow" where
  "fit_fmapreg pre w =
     (let boldref2fmap_xform = dict_get (transforms pre) ''boldref2fmap'' in
      if \<not> truthy boldref2fmap_xform then
        connect
          [(enhance_boldref_wf, fmapreg_wf,
              [(''outputnode.bias_corrected_file'', ''inputnode.target_ref''),
               (''outputnode.mask_file'', ''inputnode.target_mask'')]),
           (fmap_select, fmapreg_wf,
              [(''fmap_ref'', ''inputnode.fmap_ref''),
               (''fmap_mask'', ''inputnode.fmap_mask'')]),
           (fmapreg_wf, itk_mat2txt, [(''outputnode.target2fmap_xfm'', ''in_xfms'')]),
           (itk_mat2txt, ds_fmapreg_wf, [(''out_xfm'', ''inputnode.xform'')]),
           (fmapref_buffer, ds_fmapreg_wf, [(''out'', ''inputnode.source_files'')]),
           (ds_fmapreg_wf, fmapreg_buffer, [(''outputnode.xform'', ''boldref2fmap_xfm'')])]
          w
      else set_input fmapreg_buffer ''boldref2fmap_xfm'' (Const boldref2fmap_xform) w)"

definition fit_unwarp :: "string \<Rightarrow> precomputed \<Rightarrow> workflow \<Rightarrow> workflow" where
  "fit_unwarp fieldmap_id pre w =
     (let w = set_input fmap_select ''key'' (Const (PyStr fieldmap_id)) w;
          w = fit_fmapreg pre w;
          w = set_input unwarp_wf ''inputnode.metadata'' (Setting ''layout.get_metadata(bold_file)'') w
      in connect
           [(inputnode, fmap_select,
               [(''fmap_ref'', ''fmap_ref''),
                (''fmap_coeff'', ''fmap_coeff''),
                (''fmap_mask'', ''fmap_mask''),
                (''sdc_method'', ''sdc_method''),
                (''fmap_id'', ''keys'')]),
            (fmap_select, unwarp_wf, [(''fmap_coeff'', ''inputnode.fmap_coeff'')]),
            (fmapreg_buffer, unwarp_wf, [(''boldref2fmap_xfm'', ''inputnode.fmap2data_xfm'')]),
            (enhance_boldref_wf, unwarp_wf,
               [(''outputnode.bias_corrected_file'', ''inputnode.distorted'')]),
            (unwarp_wf, ds_coreg_boldref_wf, [(''outputnode.corrected'', ''inputnode.boldref'')]),
            (unwarp_wf, regref_buffer, [(''outputnode.corrected_mask'', ''boldmask'')]),
            (fmap_select, func_fit_reports_wf, [(''fmap_ref'', ''inputnode.fmap_ref'')]),
            (fmap_select, summary, [(''sdc_method'', ''distortion_correction'')]),
            (fmapreg_buffer, func_fit_reports_wf,
               [(''boldref2fmap_xfm'', ''inputnode.boldref2fmap_xfm'')]),
            (unwarp_wf, func_fit_reports_wf, [(''outputnode.fieldmap'', ''inputnode.fieldmap'')])]
           w)"

definition fit_stage3 ::
  "string list \<Rightarrow> precomputed \<Rightarrow> string option \<Rightarrow> workflow \<Rightarrow> workflow" where
  "fit_stage3 sbref_files pre fieldmap_id w =
     (case coreg_boldref pre of
        None \<Rightarrow>
          (let w = set_input fmapref_buffer ''sbref_files'' (Const (PyList sbref_files)) w;
               w = connect
                     [(hmcref_buffer, fmapref_buffer, [(''boldref'', ''boldref_files'')]),
                      (fmapref_buffer, enhance_boldref_wf, [(''out'', ''inputnode.in_file'')]),
                      (fmapref_buffer, ds_coreg_boldref_wf,
                         [(''out'', ''inputnode.source_files'')]),
                      (ds_coreg_boldref_wf, regref_buffer, [(''outputnode.boldref'', ''boldref'')]),
                      (fmapref_buffer, func_fit_reports_wf, [(''out'', ''inputnode.sdc_boldref'')])]
                     w
           in if id_truthy fieldmap_id then fit_unwarp (the fieldmap_id) pre w
              else connect
                     [(enhance_boldref_wf, ds_coreg_boldref_wf,
                         [(''outputnode.bias_corrected_file'', ''inputnode.boldref'')]),
                      (enhance_boldref_wf, regref_buffer,
                         [(''outputnode.mask_file'', ''boldmask'')])]
                     w)
      | Some boldref \<Rightarrow> set_input regref_buffer ''boldref'' (Const boldref) w)"

text \<open>The registration to the anatomical image, unless \<^verbatim>\<open>boldref2anat_xform\<close> is true.\<close>

definition fit_stage4 :: "precomputed \<Rightarrow> workflow \<Rightarrow> workflow" where
  "fit_stage4 pre w =
     (let boldref2anat_xform = dict_get (transforms pre) ''boldref2anat'' in
      if \<not> truthy boldref2anat_xform then
        connect
          [(inputnode, bold_reg_wf,
              [(''t1w_preproc'', ''inputnode.t1w_preproc''),
               (''t1w_mask'', ''inputnode.t1w_mask''),
               (''t1w_dseg'', ''inputnode.t1w_dseg''),
               (''subjects_dir'', ''inputnode.subjects_dir''),
               (''subject_id'', ''inputnode.subject_id''),
               (''fsnative2t1w_xfm'', ''inputnode.fsnative2t1w_xfm'')]),
           (regref_buffer, bold_reg_wf, [(''boldref'', ''inputnode.ref_bold_brain'')]),
           (regref_buffer, ds_boldreg_wf, [(''boldref'', ''inputnode.source_files'')]),
           (bold_reg_wf, ds_boldreg_wf, [(''outputnode.itk_bold_to_t1'', ''inputnode.xform'')]),
           (ds_boldreg_wf, outputnode, [(''outputnode.xform'', ''boldref2anat_xfm'')]),
           (bold_reg_wf, summary, [(''outputnode.fallback'', ''fallback'')])]
          w
      else set_input outputnode ''boldref2anat_xfm'' (Const boldref2anat_xform) w)"

text \<open>
  The graph of \<^verbatim>\<open>init_bold_fit_wf\<close>, in the order of the source. The arguments of the stage
  factories that are numbers or configuration flags (threads, memory, debug, output
  directory) do not shape the graph and are left out.
\<close>

definition fit_graph ::
  "string list \<Rightarrow> string \<Rightarrow> string list \<Rightarrow> precomputed \<Rightarrow> string option \<Rightarrow> workflow" where
  "fit_graph bold_series bold_file sbref_files pre fieldmap_id =
     (let w = Workflow;
          w = set_input inputnode ''bold_file'' (Const (PyList bold_series)) w;
          w = add_nodes [inputnode] w;
          w = set_input summary ''dummy_scans'' (Setting ''config.workflow.dummy_scans'') w;
          w = fit_connections w;
          w = fit_stage1 bold_file pre w;
          w = fit_stage2 bold_file pre w;
          w = fit_stage3 sbref_files pre fieldmap_id w
      in fit_stage4 pre w)"

text \<open>
  \<^verbatim>\<open>init_bold_fit_wf\<close>: the BOLD files and the sbref files are sorted by echo time, the
  fit operates on the first BOLD file, whose metadata must hold \<^verbatim>\<open>RepetitionTime\<close>.
\<close>

definition init_bold_fit_wf ::
  "bold_env \<Rightarrow> string list \<Rightarrow> precomputed \<Rightarrow> string option \<Rightarrow> error + workflow" where
  "init_bold_fit_wf env bold_series pre fieldmap_id =
     (case sorted_by_echo_time (get_metadata env) bold_series of
        Inl e \<Rightarrow> Inl e
      | Inr bold_files \<Rightarrow>
          (case get_sbrefs env bold_files of
             Inl e \<Rightarrow> Inl e
           | Inr sbref_files \<Rightarrow>
               (case bold_files of
                  [] \<Rightarrow> Inl IndexError
                | bold_file # _ \<Rightarrow>
                    (case RepetitionTime (get_metadata env bold_file) of
                       None \<Rightarrow> Inl (KeyError ''RepetitionTime'')
                     | Some tr \<Rightarrow>
                         Inr (fit_graph bold_series bold_file sbref_files pre fieldmap_id)))))"

subsection \<open>The native workflow\<close>

text \<open>Slice-timing correction, the fieldmap metadata and the resampling to the boldref.\<close>

definition native_stc :: "bool \<Rightarrow> workflow \<Rightarrow> workflow" where
  "native_stc run_stc w =
     (if run_stc then
        connect
          [(inputnode, bold_stc_wf, [(''dummy_scans'', ''inputnode.skip_vols'')]),
           (validate_bold, bold_stc_wf, [(''out_file'', ''inputnode.bold_file'')]),
           (bold_stc_wf, boldbuffer, [(''outputnode.stc_file'', ''bold_file'')])]
          w
      else connect [(validate_bold, boldbuffer, [(''out_file'', ''bold_file'')])] w)"

definition native_fmap_select :: "string \<Rightarrow> string option \<Rightarrow> workflow \<Rightarrow> workflow" where
  "native_fmap_select bold_file fieldmap_id w =
     (if id_truthy fieldmap_id then
        (let w = set_input fmap_select ''key'' (Const (PyStr (the fieldmap_id))) w;
             w = set_input distortion_params ''metadata'' (Setting ''metadata'') w;
             w = set_input distortion_params ''in_file'' (Const (PyStr bold_file)) w
         in connect
              [(inputnode, fmap_select,
                  [(''fmap_ref'', ''fmap_ref''),
                   (''fmap_coeff'', ''fmap_coeff''),
                   (''fmap_id'', ''keys'')]),
               (distortion_params, boldbuffer,
                  [(''readout_time'', ''ro_time''),
                   (''pe_direction'', ''pe_dir'')])]
              w)
      else w)"

definition native_resample :: "string option \<Rightarrow> workflow \<Rightarrow> workflow" where
  "native_resample fieldmap_id w =
     (let w = connect
                [(inputnode, boldref_bold,
                    [(''boldref'', ''ref_file''),
                     (''motion_xfm'', ''transforms'')]),
                 (boldbuffer, boldref_bold,
                    [(''bold_file'', ''in_file''),
                     (''ro_time'', ''ro_time''),
                     (''pe_dir'', ''pe_dir'')])]
                w
      in if id_truthy fieldmap_id then
           connect
             [(inputnode, boldref_fmap,
                 [(''boldref'', ''target_ref_file''),
                  (''boldref2fmap_xfm'', ''transforms'')]),
              (fmap_select, boldref_fmap,
                 [(''fmap_coeff'', ''in_coeffs''),
                  (''fmap_ref'', ''fmap_ref_file'')]),
              (boldref_fmap, boldref_bold, [(''out_file'', ''fieldmap'')])]
             w
         else w)"

text \<open>
  The end of \<^verbatim>\<open>init_bold_native_wf\<close>: the echos are joined and combined, and
  \<^verbatim>\<open>motion_xfm\<close> is not set on \<^verbatim>\<open>outputnode\<close>; a single echo is passed on with its
  motion transforms.
\<close>

definition native_outputs :: "bool \<Rightarrow> workflow \<Rightarrow> workflow" where
  "native_outputs multiecho w =
     (if multiecho then
        connect
          [(inputnode, bold_t2s_wf, [(''bold_mask'', ''inputnode.bold_mask'')]),
           (boldref_bold, join_echos, [(''out_file'', ''bold_files'')]),
           (join_echos, bold_t2s_wf, [(''bold_files'', ''inputnode.bold_file'')]),
           (join_echos, outputnode, [(''bold_files'', ''bold_echos'')]),
           (bold_t2s_wf, outputnode,
              [(''outputnode.bold'', ''bold_minimal''),
               (''outputnode.bold'', ''bold_native''),
               (''outputnode.t2star_map'', ''t2star_map'')])]
          w
      else
        connect
          [(inputnode, outputnode, [(''motion_xfm'', ''motion_xfm'')]),
           (boldbuffer, outputnode, [(''bold_file'', ''bold_minimal'')]),
           (boldref_bold, outputnode, [(''out_file'', ''bold_native'')])]
          w)"

definition native_graph ::
  "string list \<Rightarrow> string \<Rightarrow> bool \<Rightarrow> string option \<Rightarrow> workflow" where
  "native_graph bold_files bold_file run_stc fieldmap_id =
     (let multiecho = (length bold_files > 1);
          w = Workflow;
          w = set_input outputnode ''metadata'' (Setting ''metadata'') w;
          w = (if multiecho then set_iterables echo_index ''echoidx'' [0 ..< length bold_files] w
               else set_input echo_index ''echoidx'' (Number 0) w);
          w = set_input bold_source ''inlist'' (Const (PyList bold_files)) w;
          w = connect
                [(echo_index, bold_source, [(''echoidx'', ''index'')]),
                 (bold_source, validate_bold, [(''out'', ''in_file'')])]
                w;
          w = native_stc run_stc w;
          w = native_fmap_select bold_file fieldmap_id w;
          w = native_resample fieldmap_id w
      in native_outputs multiecho w)"

text \<open>
  \<^verbatim>\<open>init_bold_native_wf\<close>: the files of the series are sorted by echo time (an empty series
  fails when the empty \<^verbatim>\<open>zip\<close> is unpacked); for a multi-echo series the shapes of the
  images are compared first, and the number of echos is checked after that.
\<close>

definition init_bold_native_wf ::
  "bold_env \<Rightarrow> pyval \<Rightarrow> string option \<Rightarrow> error + workflow" where
  "init_bold_native_wf env bold_series fieldmap_id =
     (case listify bold_series of
        PyList series \<Rightarrow>
          (case sorted_by_echo_time (get_metadata env) series of
             Inl e \<Rightarrow> Inl e
           | Inr bold_files \<Rightarrow>
               (case bold_files of
                  [] \<Rightarrow> Inl UnpackError
                | bold_file # _ \<Rightarrow>
                    (let multiecho = (length bold_files > 1);
                         metadata = get_metadata env bold_file;
                         shapes = map (img_shape env) bold_files
                     in if multiecho \<and> card (set shapes) \<noteq> 1 then
                          Inl (RuntimeError
                                 (MismatchingShapes
                                    (map (\<lambda>echo. (basename echo, img_shape env echo)) bold_files)))
                        else if multiecho \<and> length shapes = 2 then
                          Inl (RuntimeError RequiresThreeEchos)
                        else
                          (let run_stc =
                                 ((case SliceTiming metadata of None \<Rightarrow> False | Some st \<Rightarrow> st \<noteq> [])
                                  \<and> ''slicetiming'' \<notin> set (ignore env))
                           in Inr (native_graph bold_files bold_file run_stc fieldmap_id)))))
      | _ \<Rightarrow> Inl TypeError)"

text \<open>The node that entered the graph first.\<close>

definition first_node :: "workflow \<Rightarrow> node option" where
  "first_node w = (case nodes w of [] \<Rightarrow> None | n # ns \<Rightarrow> Some n)"

subsection \<open>What a port receives when the graph runs\<close>

text \<open>
  The interfaces of the nodes: an \<^verbatim>\<open>IdentityInterface\<close> passes each input field to the
  output field of the same name; \<^verbatim>\<open>fmapref_buffer\<close> runs the function
  \<^verbatim>\<open>_select_ref\<close>; \<^verbatim>\<open>join_echos\<close> is a \<^verbatim>\<open>JoinNode\<close>; every other node is a stage
  of the external library.
\<close>

datatype interface = IdentityInterface | Function_select_ref | JoinNode | Stage

fun interface_of :: "node \<Rightarrow> interface" where
  "interface_of inputnode = IdentityInterface"
| "interface_of outputnode = IdentityInterface"
| "interface_of hmcref_buffer = IdentityInterface"
| "interface_of hmc_buffer = IdentityInterface"
| "interface_of fmapreg_buffer = IdentityInterface"
| "interface_of regref_buffer = IdentityInterface"
| "interface_of boldbuffer = IdentityInterface"
| "interface_of echo_index = IdentityInterface"
| "interface_of fmapref_buffer = Function_select_ref"
| "interface_of join_echos = JoinNode"
| "interface_of _ = Stage"

text \<open>
  \<^verbatim>\<open>_select_ref(sbref_files, boldref_files)\<close>:
  \<^verbatim>\<open>refs = sbref_files or boldref_files; return listify(refs)[0]\<close>. The output of a stage
  is one file.
\<close>

fun wire_truthy :: "wire \<Rightarrow> bool" where
  "wire_truthy (Const v) = truthy v"
| "wire_truthy (Output n p) = True"
| "wire_truthy (Setting s) = True"
| "wire_truthy (Number k) = (k \<noteq> 0)"
| "wire_truthy _ = False"

fun wire_first :: "wire \<Rightarrow> wire" where
  "wire_first (Const v) = (case listify0 v of Inl e \<Rightarrow> Raises e | Inr f \<Rightarrow> Const (PyStr f))"
| "wire_first (Output n p) = Output n p"
| "wire_first (Raises e) = Raises e"
| "wire_first _ = Raises TypeError"

definition select_ref :: "wire \<Rightarrow> wire \<Rightarrow> wire" where
  "select_ref sbref_files boldref_files =
     (let refs = (if wire_truthy sbref_files then sbref_files else boldref_files)
      in wire_first refs)"

text \<open>The sources of the edges into a port.\<close>

definition incoming :: "workflow \<Rightarrow> node \<Rightarrow> string \<Rightarrow> (node \<times> string) list" where
  "incoming w n p =
     map (\<lambda>(src, out, dst, inp). (src, out))
       (filter (\<lambda>(src, out, dst, inp). dst = n \<and> inp = p) (edges w))"

text \<open>The input assigned on a node object, if any.\<close>

definition assigned :: "workflow \<Rightarrow> node \<Rightarrow> string \<Rightarrow> wire" where
  "assigned w n p = (case map_of (inputs w) (n, p) of None \<Rightarrow> Undefined | Some v \<Rightarrow> v)"

text \<open>
  What the input port \<open>p\<close> of node \<open>n\<close> receives: the assigned input when no edge enters
  the port; otherwise what the source of the edge puts out, which for an identity node is
  what its input of the same name receives. The walk is bounded by its first argument and
  gives \<^const>\<open>None\<close> when the bound is exhausted or when two edges enter one port (which
  \<^verbatim>\<open>connect\<close> refuses).
\<close>

fun receives :: "nat \<Rightarrow> workflow \<Rightarrow> node \<Rightarrow> string \<Rightarrow> wire option" where
  "receives 0 w n p = None"
| "receives (Suc k) w n p =
     (case incoming w n p of
        [] \<Rightarrow> Some (assigned w n p)
      | [(src, out)] \<Rightarrow>
          (case interface_of src of
             IdentityInterface \<Rightarrow> receives k w src out
           | Function_select_ref \<Rightarrow>
               (case (receives k w src ''sbref_files'', receives k w src ''boldref_files'') of
                  (Some a, Some b) \<Rightarrow> Some (select_ref a b)
                | _ \<Rightarrow> None)
           | _ \<Rightarrow> Some (Output src out))
      | _ \<Rightarrow> None)"

text \<open>A walk never visits more ports than the graph has nodes and edges.\<close>

definition port_value :: "workflow \<Rightarrow> node \<Rightarrow> string \<Rightarrow> wire option" where
  "port_value w n p = receives (Suc (length (nodes w) + length (edges w))) w n p"

subsection \<open>The cached slots\<close>

text \<open>
  The four slots whose stage groups the fit workflow can skip, the test the source applies
  to each (\<^verbatim>\<open>"hmc_boldref" in precomputed\<close>, \<^verbatim>\<open>if not hmc_xforms\<close>, ...), the nodes
  the source creates to produce the slot, and the field of \<^verbatim>\<open>outputnode\<close> that exposes
  it.
\<close>

datatype slot = Hmc_boldref | Transforms_hmc | Coreg_boldref | Transforms_boldref2anat

fun cached :: "precomputed \<Rightarrow> slot \<Rightarrow> pyval option" where
  "cached pre Hmc_boldref = hmc_boldref pre"
| "cached pre Coreg_boldref = coreg_boldref pre"
| "cached pre Transforms_hmc =
     (if truthy (dict_get (transforms pre) ''hmc'')
      then Some (dict_get (transforms pre) ''hmc'') else None)"
| "cached pre Transforms_boldref2anat =
     (if truthy (dict_get (transforms pre) ''boldref2anat'')
      then Some (dict_get (transforms pre) ''boldref2anat'') else None)"

fun producers :: "slot \<Rightarrow> node list" where
  "producers Hmc_boldref = [hmc_boldref_wf, ds_hmc_boldref_wf]"
| "producers Transforms_hmc = [bold_hmc_wf, ds_hmc_wf]"
| "producers Coreg_boldref =
     [fmapref_buffer, enhance_boldref_wf, ds_coreg_boldref_wf,
      fmap_select, fmapreg_wf, itk_mat2txt, ds_fmapreg_wf, unwarp_wf]"
| "producers Transforms_boldref2anat = [bold_reg_wf, ds_boldreg_wf]"

fun output_field :: "slot \<Rightarrow> string" where
  "output_field Hmc_boldref = ''hmc_boldref''"
| "output_field Transforms_hmc = ''motion_xfm''"
| "output_field Coreg_boldref = ''coreg_boldref''"
| "output_field Transforms_boldref2anat = ''boldref2anat_xfm''"

subsection \<open>Example series and caches\<close>

text \<open>
  A single-echo run with two single-band references (listed by the layout with the later
  echo first), a three-echo run, a two-echo run whose images differ in shape, and a two-echo
  run whose images agree.
\<close>

definition example_echo_time :: "string \<Rightarrow> rat option" where
  "example_echo_time f =
     (if f \<in> {''func/run-1_echo-1_sbref.nii.gz'', ''func/run-2_echo-1_bold.nii.gz'',
               ''func/run-3_echo-1_bold.nii.gz'', ''func/run-4_echo-1_bold.nii.gz''}
      then Some (13 / 1000)
      else if f \<in> {''func/run-1_bold.nii.gz'', ''func/run-1_echo-2_sbref.nii.gz'',
               ''func/run-2_echo-2_bold.nii.gz'', ''func/run-3_echo-2_bold.nii.gz'',
               ''func/run-4_echo-2_bold.nii.gz''}
      then Some (30 / 1000)
      else if f = ''func/run-2_echo-3_bold.nii.gz'' then Some (47 / 1000)
      else None)"

definition example_metadata :: "string \<Rightarrow> metadata" where
  "example_metadata f =
     \<lparr>EchoTime = example_echo_time f, RepetitionTime = Some 2,
      PhaseEncodingDirection = Some ''j'', SliceTiming = None\<rparr>"

definition example_bold_env :: bold_env where
  "example_bold_env =
     \<lparr>get_metadata = example_metadata,
      layout_get_sbref =
        (\<lambda>bold_files. if bold_files = [''func/run-1_bold.nii.gz'']
           then [''func/run-1_echo-2_sbref.nii.gz'', ''func/run-1_echo-1_sbref.nii.gz''] else []),
      img_shape =
        (\<lambda>f. if f = ''func/run-3_echo-2_bold.nii.gz'' then [64, 64, 30, 99] else [64, 64, 30, 100]),
      ignore = []\<rparr>"

definition example_run1 :: "string list" where
  "example_run1 = [''func/run-1_bold.nii.gz'']"

definition example_run2 :: "string list" where
  "example_run2 =
     [''func/run-2_echo-3_bold.nii.gz'', ''func/run-2_echo-1_bold.nii.gz'',
      ''func/run-2_echo-2_bold.nii.gz'']"

definition example_run3 :: "string list" where
  "example_run3 = [''func/run-3_echo-1_bold.nii.gz'', ''func/run-3_echo-2_bold.nii.gz'']"

definition example_run4 :: "string list" where
  "example_run4 = [''func/run-4_echo-1_bold.nii.gz'', ''func/run-4_echo-2_bold.nii.gz'']"

definition empty_cache :: precomputed where
  "empty_cache = \<lparr>hmc_boldref = None, coreg_boldref = None, transforms = []\<rparr>"

definition full_cache :: precomputed where
  "full_cache =
     \<lparr>hmc_boldref = Some (PyStr ''desc-hmc_boldref.nii.gz''),
      coreg_boldref = Some (PyStr ''desc-coreg_boldref.nii.gz''),
      transforms =
        [(''hmc'', PyStr ''from-orig_to-boldref_xfm.txt''),
         (''boldref2anat'', PyStr ''from-boldref_to-T1w_xfm.txt''),
         (''boldref2fmap'', PyStr ''from-boldref_to-fmap_xfm.txt'')]\<rparr>"

definition fmapreg_cache :: precomputed where
  "fmapreg_cache =
     \<lparr>hmc_boldref = None, coreg_boldref = None,
      transforms = [(''boldref2fmap'', PyStr ''from-boldref_to-fmap_xfm.txt'')]\<rparr>"

text \<open>The graphs of the fit workflow for the single-echo run.\<close>

definition example_sbrefs :: "string list" where
  "example_sbrefs = [''func/run-1_echo-1_sbref.nii.gz'', ''func/run-1_echo-2_sbref.nii.gz'']"

definition example_fit :: "precomputed \<Rightarrow> string option \<Rightarrow> workflow" where
  "example_fit pre fieldmap_id =
     fit_graph example_run1 ''func/run-1_bold.nii.gz'' example_sbrefs pre fieldmap_id"

text \<open>The graph of the fit workflow for the fourth run, which has no single-band reference.\<close>

definition example_fit4 :: "precomputed \<Rightarrow> string option \<Rightarrow> workflow" where
  "example_fit4 pre fieldmap_id =
     fit_graph example_run4 ''func/run-4_echo-1_bold.nii.gz'' [] pre fieldmap_id"

text \<open>The graph of the native workflow for the three-echo run, sorted by echo time.\<close>

definition example_run2_sorted :: "string list" where
  "example_run2_sorted =
     [''func/run-2_echo-1_bold.nii.gz'', ''func/run-2_echo-2_bold.nii.gz'',
      ''func/run-2_echo-3_bold.nii.gz'']"

definition example_native2 :: workflow where
  "example_native2 = native_graph example_run2_sorted ''func/run-2_echo-1_bold.nii.gz'' False None"

definition example_native1 :: workflow where
  "example_native1 = native_graph example_run1 ''func/run-1_bold.nii.gz'' False None"

subsection \<open>Auxiliary definitions for the graphs\<close>

text \<open>The input assigned on a node object, with a default.\<close>

definition assigned_or :: "workflow \<Rightarrow> node \<Rightarrow> string \<Rightarrow> wire \<Rightarrow> wire" where
  "assigned_or w n p d = (case map_of (inputs w) (n, p) of None \<Rightarrow> d | Some v \<Rightarrow> v)"

text \<open>A conditional whose branches are both simplified.\<close>

definition ite :: "bool \<Rightarrow> 'a \<Rightarrow> 'a \<Rightarrow> 'a" where
  "ite c x y = (if c then x else y)"

section \<open>Properties of the estimator mapping\<close>

lemma map_of_fold_update:
  "map_of (fold (\<lambda>b d. AList.update b (f b) d) bs d0) k =
     (if k \<in> set bs then Some (f k) else map_of d0 k)"
  by (induction bs arbitrary: d0) (auto simp: update_conv')

lemma distinct_fold_update:
  "distinct (map fst d0) \<Longrightarrow> distinct (map fst (fold (\<lambda>b d. AList.update b (f b) d) bs d0))"
  by (induction bs arbitrary: d0) (auto simp: distinct_update)

lemma keys_fold_update:
  "fst ` set (fold (\<lambda>b d. AList.update b (f b) d) bs d0) = set bs \<union> fst ` set d0"
  by (induction bs arbitrary: d0) (auto simp: dom_update)

lemma several_loop_snd:
  "snd (several_loop al) = map (\<lambda>p. (fst p, if length (snd p) > 1 then take 1 (snd p) else snd p)) al"
  by (induction al) (auto simp: case_prod_beta Let_def)

lemma several_loop_fst:
  "fst (several_loop al) =
     map (\<lambda>p. (WARNING, SeveralFieldmaps (snd p) (fst p) (snd p ! 0))) (filter (\<lambda>p. length (snd p) > 1) al)"
  by (induction al) (auto simp: case_prod_beta Let_def)

lemma first_files_set:
  "first_files bd = Inr fs \<Longrightarrow> set fs = series_keys bd"
  unfolding series_keys_def
  by (induction bd arbitrary: fs) (auto split: sum.splits simp del: listify0.simps)

lemma run_dict_entry: "(b, k) \<in> set (run_dict c fs) \<Longrightarrow> b \<in> set fs \<and> k = c b"
proof -
  assume a: "(b, k) \<in> set (run_dict c fs)"
  have d: "distinct (map fst (run_dict c fs))"
    unfolding run_dict_def by (rule distinct_fold_update) simp
  from a d have "map_of (run_dict c fs) b = Some k" by simp
  then show ?thesis unfolding run_dict_def by (simp add: map_of_fold_update split: if_splits)
qed

lemma run_dict_keys: "fst ` set (run_dict c fs) = set fs"
  unfolding run_dict_def by (simp add: keys_fold_update)

lemma run_dict_distinct: "distinct (map fst (run_dict c fs))"
  unfolding run_dict_def by (rule distinct_fold_update) simp

lemma run_dict_mem: "b \<in> set fs \<Longrightarrow> (b, c b) \<in> set (run_dict c fs)"
proof -
  assume "b \<in> set fs"
  then have "map_of (run_dict c fs) b = Some (c b)"
    unfolding run_dict_def by (simp add: map_of_fold_update)
  then show ?thesis by (rule map_of_SomeD)
qed

lemma final_map_eq:
  "final_map d = map (\<lambda>p. (fst p, snd p ! 0)) (filter (\<lambda>p. snd p \<noteq> []) d)"
  unfolding final_map_def several_loop_snd
  by (induction d) (auto simp: case_prod_beta)

lemma final_map_fst: "map fst (final_map d) = map fst (filter (\<lambda>p. snd p \<noteq> []) d)"
  by (simp add: final_map_eq comp_def)

lemma final_map_distinct: "distinct (map fst d) \<Longrightarrow> distinct (map fst (final_map d))"
  by (simp add: final_map_fst distinct_map_filter)

text \<open>The main path.\<close>

lemma mfe_off:
  "\<not> (\<not> ign \<or> syn_truthy us \<or> fs) \<Longrightarrow> map_fieldmap_estimation env bd ign us fs = ([], Inr ([], []))"
  unfolding map_fieldmap_estimation_def by simp

lemma mfe_none:
  "(\<not> ign \<or> syn_truthy us \<or> fs) \<Longrightarrow>
   find_estimators env (syn_truthy us \<or> ign \<and> fs) (fs \<or> ign \<and> syn_truthy us) = [] \<Longrightarrow>
   map_fieldmap_estimation env bd ign us fs =
     (if syn_truthy us then
        ([(ERROR, AbsentPhaseEncoding)],
         if us = SynStr ''error'' then Inl (ValueError AbsentPhaseEncoding) else Inr ([], []))
      else ([], Inr ([], [])))"
  unfolding map_fieldmap_estimation_def by (simp add: Let_def)

lemma known_nonempty:
  "(\<not> ign \<or> syn_truthy us \<or> fs) \<Longrightarrow>
   find_estimators env (syn_truthy us \<or> ign \<and> fs) (fs \<or> ign \<and> syn_truthy us) \<noteq> [] \<Longrightarrow>
   known_estimators env ign us fs \<noteq> []"
  unfolding known_estimators_def
  by (auto simp: Let_def list_ex_iff filter_empty_conv)

lemma mfe_some:
  assumes "\<not> ign \<or> syn_truthy us \<or> fs"
      and "find_estimators env (syn_truthy us \<or> ign \<and> fs) (fs \<or> ign \<and> syn_truthy us) \<noteq> []"
  shows "map_fieldmap_estimation env bd ign us fs =
     (let log1 = (if ign \<and> list_ex (\<lambda>f. est_method f = ANAT)
                       (find_estimators env (syn_truthy us \<or> ign \<and> fs) (fs \<or> ign \<and> syn_truthy us))
                  then [(INFO, IgnoreFieldmapsButSyn)] else [])
      in case first_files bd of
           Inl e \<Rightarrow> (log1, Inl e)
         | Inr bfs \<Rightarrow>
             (log1 @ fst (several_loop (run_dict (candidates env ign us fs) bfs)),
              Inr (filter (\<lambda>f. bids_id f \<in> snd ` set (final_map (run_dict (candidates env ign us fs) bfs)))
                     (known_estimators env ign us fs),
                   final_map (run_dict (candidates env ign us fs) bfs))))"
proof -
  define found where "found = find_estimators env (syn_truthy us \<or> ign \<and> fs) (fs \<or> ign \<and> syn_truthy us)"
  define anat where "anat = (ign \<and> list_ex (\<lambda>f. est_method f = ANAT) found)"
  have k: "known_estimators env ign us fs = (if anat then filter (\<lambda>f. est_method f = ANAT) found else found)"
    using assms(1) unfolding known_estimators_def found_def anat_def by (simp add: Let_def)
  have c: "\<And>b. filter (\<lambda>i. i \<in> set (map bids_id (known_estimators env ign us fs))) (get_estimator env b)
              = candidates env ign us fs b"
    unfolding candidates_def by simp
  have ne: "found \<noteq> []" using assms(2) unfolding found_def .
  have "map_fieldmap_estimation env bd ign us fs =
     (case first_files bd of
           Inl e \<Rightarrow> (if anat then [(INFO, IgnoreFieldmapsButSyn)] else [], Inl e)
         | Inr bfs \<Rightarrow>
             ((if anat then [(INFO, IgnoreFieldmapsButSyn)] else []) @
                fst (several_loop (fold (\<lambda>b d. AList.update b
                   (filter (\<lambda>i. i \<in> set (map bids_id (known_estimators env ign us fs))) (get_estimator env b)) d) bfs [])),
              Inr (filter (\<lambda>f. bids_id f \<in> snd ` set (final_map (fold (\<lambda>b d. AList.update b
                   (filter (\<lambda>i. i \<in> set (map bids_id (known_estimators env ign us fs))) (get_estimator env b)) d) bfs [])))
                     (known_estimators env ign us fs),
                   final_map (fold (\<lambda>b d. AList.update b
                   (filter (\<lambda>i. i \<in> set (map bids_id (known_estimators env ign us fs))) (get_estimator env b)) d) bfs []))))"
    unfolding map_fieldmap_estimation_def final_map_def k
    using assms(1) ne
    unfolding found_def[symmetric] Let_def
    unfolding anat_def[symmetric]
    by (cases anat) (simp_all add: case_prod_beta split: sum.splits)
  then show ?thesis
    unfolding c run_dict_def found_def[symmetric] anat_def[symmetric] Let_def
    by (simp split: sum.splits)
qed


lemma filter_key_distinct:
  "distinct (map fst d) \<Longrightarrow> (b, k) \<in> set d \<Longrightarrow> filter (\<lambda>p. fst p = b) d = [(b, k)]"
proof (induction d)
  case Nil
  then show ?case by simp
next
  case (Cons p d)
  show ?case
  proof (cases "fst p = b")
    case True
    with Cons.prems have "p = (b, k)" by (cases p) (auto simp: rev_image_eqI)
    moreover have "filter (\<lambda>q. fst q = b) d = []"
    proof -
      from True Cons.prems(1) have "b \<notin> fst ` set d" by simp
      then have "\<forall>q \<in> set d. fst q \<noteq> b" by blast
      then show ?thesis by (simp add: filter_empty_conv)
    qed
    ultimately show ?thesis by simp
  next
    case False
    with Cons show ?thesis by auto
  qed
qed

lemma known_empty_candidates:
  "known_estimators env ign us fs = [] \<Longrightarrow> candidates env ign us fs b = []"
  unfolding candidates_def by simp

lemma mfe_main:
  assumes r: "map_fieldmap_estimation env bd ign us fs = (lg, Inr (ests, emap))"
      and ne: "known_estimators env ign us fs \<noteq> []"
  shows "\<exists>bfs lg1. first_files bd = Inr bfs \<and> set bfs = series_keys bd \<and>
           filter (\<lambda>e. fst e = WARNING) lg1 = [] \<and>
           lg = lg1 @ fst (several_loop (run_dict (candidates env ign us fs) bfs)) \<and>
           emap = final_map (run_dict (candidates env ign us fs) bfs) \<and>
           ests = filter (\<lambda>f. bids_id f \<in> snd ` set emap) (known_estimators env ign us fs)"
proof -
  from ne have on: "\<not> ign \<or> syn_truthy us \<or> fs"
    unfolding known_estimators_def by (auto split: if_splits)
  from ne on have f: "find_estimators env (syn_truthy us \<or> ign \<and> fs) (fs \<or> ign \<and> syn_truthy us) \<noteq> []"
    unfolding known_estimators_def by (auto simp: Let_def split: if_splits)
  from r obtain bfs where b: "first_files bd = Inr bfs"
    unfolding mfe_some[OF on f] by (auto simp: Let_def split: sum.splits)
  from r show ?thesis
    unfolding mfe_some[OF on f] b
    using first_files_set[OF b]
    by (auto simp: Let_def)
qed

lemma mfe_empty:
  assumes r: "map_fieldmap_estimation env bd ign us fs = (lg, Inr (ests, emap))"
      and e: "known_estimators env ign us fs = []"
  shows "ests = [] \<and> emap = [] \<and> filter (\<lambda>e. fst e = WARNING) lg = []"
proof (cases "\<not> ign \<or> syn_truthy us \<or> fs")
  case False
  then show ?thesis using r by (simp add: mfe_off)
next
  case True
  with e have "find_estimators env (syn_truthy us \<or> ign \<and> fs) (fs \<or> ign \<and> syn_truthy us) = []"
    using known_nonempty by blast
  from mfe_none[OF True this] r show ?thesis by (auto split: if_splits)
qed

lemma warning_about_level: "warning_about b e \<Longrightarrow> fst e = WARNING"
  by (cases "(b, e)" rule: warning_about.cases) auto

lemma filter_warning_about:
  "filter (\<lambda>e. fst e = WARNING) lg = [] \<Longrightarrow> filter (warning_about b) lg = []"
  by (auto simp: filter_empty_conv dest: warning_about_level)

text \<open>
  C2. For a run with more than one candidate, the returned map assigns the first candidate
  in declaration order, holds no other entry for the run (the remaining candidates are
  discarded), and the log holds exactly one warning about the run, which names all the
  candidates and the chosen one.
\<close>

theorem C2_first_candidate_wins:
  assumes r: "map_fieldmap_estimation env bold_data ign us fs = (lg, Inr (ests, emap))"
      and s: "bold_file \<in> series_keys bold_data"
      and l: "length (candidates env ign us fs bold_file) > 1"
  shows "map_of emap bold_file = Some (candidates env ign us fs bold_file ! 0) \<and>
         filter (\<lambda>p. fst p = bold_file) emap =
           [(bold_file, candidates env ign us fs bold_file ! 0)] \<and>
         filter (warning_about bold_file) lg =
           [(WARNING, SeveralFieldmaps (candidates env ign us fs bold_file) bold_file
                        (candidates env ign us fs bold_file ! 0))]"
proof -
  let ?c = "candidates env ign us fs"
  from l have "known_estimators env ign us fs \<noteq> []"
    using known_empty_candidates[of env ign us fs bold_file] by auto
  from mfe_main[OF r this] obtain bfs lg1 where
    k: "set bfs = series_keys bold_data" and
    w: "filter (\<lambda>e. fst e = WARNING) lg1 = []" and
    lg: "lg = lg1 @ fst (several_loop (run_dict ?c bfs))" and
    em: "emap = final_map (run_dict ?c bfs)"
    by blast
  let ?d = "run_dict ?c bfs"
  from s k have "(bold_file, ?c bold_file) \<in> set ?d" by (simp add: run_dict_mem)
  then have one: "filter (\<lambda>p. fst p = bold_file) ?d = [(bold_file, ?c bold_file)]"
    by (rule filter_key_distinct[OF run_dict_distinct])
  from l have nonempty: "?c bold_file \<noteq> []" by auto
  have "filter (\<lambda>p. fst p = bold_file) emap =
        map (\<lambda>p. (fst p, snd p ! 0)) (filter (\<lambda>p. snd p \<noteq> []) (filter (\<lambda>p. fst p = bold_file) ?d))"
    unfolding em final_map_eq by (simp add: filter_map comp_def conj_commute)
  with one nonempty have e1: "filter (\<lambda>p. fst p = bold_file) emap = [(bold_file, ?c bold_file ! 0)]"
    by simp
  have dist: "distinct (map fst emap)"
    unfolding em by (rule final_map_distinct[OF run_dict_distinct])
  from e1 have "(bold_file, ?c bold_file ! 0) \<in> set (filter (\<lambda>p. fst p = bold_file) emap)"
    by simp
  then have "(bold_file, ?c bold_file ! 0) \<in> set emap" by simp
  with dist have e2: "map_of emap bold_file = Some (?c bold_file ! 0)" by simp
  have "filter (warning_about bold_file) lg =
        filter (warning_about bold_file) (fst (several_loop ?d))"
    unfolding lg using filter_warning_about[OF w] by simp
  also have "\<dots> = map (\<lambda>p. (WARNING, SeveralFieldmaps (snd p) (fst p) (snd p ! 0)))
                    (filter (\<lambda>p. length (snd p) > 1) (filter (\<lambda>p. fst p = bold_file) ?d))"
    unfolding several_loop_fst by (simp add: filter_map comp_def conj_commute)
  also have "\<dots> = [(WARNING, SeveralFieldmaps (?c bold_file) bold_file (?c bold_file ! 0))]"
    unfolding one using l by simp
  finally show ?thesis using e1 e2 by simp
qed

lemma final_map_values:
  "(b, i) \<in> set (final_map (run_dict c bfs)) \<Longrightarrow> b \<in> set bfs \<and> c b \<noteq> [] \<and> i = c b ! 0"
  unfolding final_map_eq by (auto dest: run_dict_entry)

lemma candidates_known:
  "candidates env ign us fs b \<noteq> [] \<Longrightarrow>
   candidates env ign us fs b ! 0 \<in> bids_id ` set (known_estimators env ign us fs)"
proof -
  assume "candidates env ign us fs b \<noteq> []"
  then have "candidates env ign us fs b ! 0 \<in> set (candidates env ign us fs b)"
    by (simp add: hd_conv_nth[symmetric])
  then show ?thesis unfolding candidates_def by auto
qed

lemma pruned_ids_image:
  assumes r: "map_fieldmap_estimation env bold_data ign us fs = (lg, Inr (ests, emap))"
  shows "bids_id ` set ests = snd ` set emap"
proof (cases "known_estimators env ign us fs = []")
  case True
  from mfe_empty[OF r True] show ?thesis by simp
next
  case False
  from mfe_main[OF r False] obtain bfs where
    em: "emap = final_map (run_dict (candidates env ign us fs) bfs)" and
    es: "ests = filter (\<lambda>f. bids_id f \<in> snd ` set emap) (known_estimators env ign us fs)"
    by blast
  have "snd ` set emap \<subseteq> bids_id ` set (known_estimators env ign us fs)"
  proof
    fix i assume "i \<in> snd ` set emap"
    then obtain b where "(b, i) \<in> set emap" by auto
    from final_map_values[OF this[unfolded em]] show "i \<in> bids_id ` set (known_estimators env ign us fs)"
      using candidates_known by blast
  qed
  moreover have "bids_id ` set ests =
      bids_id ` set (known_estimators env ign us fs) \<inter> snd ` set emap"
    unfolding es by auto
  ultimately show ?thesis by auto
qed

text \<open>
  C3. Whenever \<^const>\<open>map_fieldmap_estimation\<close> returns, the identifiers of the returned
  estimators are exactly the values of the returned map: every returned estimator is the
  value of some run, and every value of the map is the identifier of a returned estimator.
\<close>

theorem C3_pruned_is_image:
  assumes "map_fieldmap_estimation env bold_data ign us fs = (lg, Inr (ests, emap))"
  shows "bids_id ` set ests = snd ` set emap"
  using assms by (rule pruned_ids_image)

text \<open>
  C4, as amended. The returned map is not total over the runs: its keys are exactly the runs
  with at least one candidate (a run without candidates is dropped). Each key occurs once,
  its value is the first candidate of the run, and that value is the identifier of a returned
  estimator.
\<close>

theorem C4_assignment_domain:
  assumes r: "map_fieldmap_estimation env bold_data ign us fs = (lg, Inr (ests, emap))"
  shows "fst ` set emap = {f \<in> series_keys bold_data. candidates env ign us fs f \<noteq> []} \<and>
         distinct (map fst emap) \<and>
         (\<forall>f i. map_of emap f = Some i \<longrightarrow>
            i = candidates env ign us fs f ! 0 \<and> i \<in> bids_id ` set ests)"
proof (cases "known_estimators env ign us fs = []")
  case True
  from mfe_empty[OF r True] known_empty_candidates[OF True] show ?thesis by simp
next
  case False
  let ?c = "candidates env ign us fs"
  from mfe_main[OF r False] obtain bfs where
    k: "set bfs = series_keys bold_data" and
    em: "emap = final_map (run_dict ?c bfs)"
    by blast
  have "fst ` set emap = {f \<in> set bfs. ?c f \<noteq> []}"
  proof (intro set_eqI iffI)
    fix f assume "f \<in> fst ` set emap"
    then obtain i where "(f, i) \<in> set emap" by auto
    from final_map_values[OF this[unfolded em]] show "f \<in> {f \<in> set bfs. ?c f \<noteq> []}" by simp
  next
    fix f assume "f \<in> {f \<in> set bfs. ?c f \<noteq> []}"
    then have "(f, ?c f) \<in> set (run_dict ?c bfs)" and "?c f \<noteq> []"
      by (simp_all add: run_dict_mem)
    then have "(f, ?c f ! 0) \<in> set emap" unfolding em final_map_eq by force
    then show "f \<in> fst ` set emap" by force
  qed
  moreover have "distinct (map fst emap)"
    unfolding em by (rule final_map_distinct[OF run_dict_distinct])
  moreover have "\<forall>f i. map_of emap f = Some i \<longrightarrow> i = ?c f ! 0 \<and> i \<in> bids_id ` set ests"
  proof (intro allI impI)
    fix f i assume "map_of emap f = Some i"
    then have m: "(f, i) \<in> set emap" by (rule map_of_SomeD)
    from final_map_values[OF m[unfolded em]] have "i = ?c f ! 0" by simp
    moreover from m have "i \<in> snd ` set emap" by force
    ultimately show "i = ?c f ! 0 \<and> i \<in> bids_id ` set ests"
      using pruned_ids_image[OF r] by simp
  qed
  ultimately show ?thesis using k by simp
qed


lemma first_files_error: "first_files bd = Inl e \<Longrightarrow> e = IndexError \<or> e = TypeError"
  by (induction bd) (auto split: sum.splits pyval.splits list.splits)

lemma mfe_value_error:
  assumes "snd (map_fieldmap_estimation env bd ign us fs) = Inl (ValueError m)"
  shows "us = SynStr ''error'' \<and>
         find_estimators env (syn_truthy us \<or> ign \<and> fs) (fs \<or> ign \<and> syn_truthy us) = []"
proof (cases "\<not> ign \<or> syn_truthy us \<or> fs")
  case False
  with assms show ?thesis by (simp add: mfe_off)
next
  case on: True
  show ?thesis
  proof (cases "find_estimators env (syn_truthy us \<or> ign \<and> fs) (fs \<or> ign \<and> syn_truthy us) = []")
    case True
    from assms show ?thesis unfolding mfe_none[OF on True] using True by (auto split: if_splits)
  next
    case False
    from assms show ?thesis unfolding mfe_some[OF on False]
      by (auto simp: Let_def split: sum.splits dest: first_files_error)
  qed
qed

text \<open>
  C5. When discovery yields no estimator, \<^const>\<open>map_fieldmap_estimation\<close> returns the
  empty pair and the caller sets up (validates) no estimator, unless \<^verbatim>\<open>use_syn\<close> is
  \<^verbatim>\<open>"error"\<close>, in which case the \<^verbatim>\<open>ValueError\<close> is raised; and that
  \<^verbatim>\<open>ValueError\<close> is raised only when \<^verbatim>\<open>use_syn\<close> is \<^verbatim>\<open>"error"\<close> and discovery
  yielded no estimator.
\<close>

theorem C5_no_estimators:
  "(find_estimators env (syn_truthy us \<or> ign \<and> fs) (fs \<or> ign \<and> syn_truthy us) = [] \<longrightarrow>
      snd (map_fieldmap_estimation env bold_data ign us fs) =
        (if us = SynStr ''error'' then Inl (ValueError AbsentPhaseEncoding) else Inr ([], [])) \<and>
      snd (init_single_subject_fit_wf_fieldmaps env bold_data ign us fs) =
        (if us = SynStr ''error'' then Inl (ValueError AbsentPhaseEncoding) else Inr ([], [], []))) \<and>
   (\<forall>m. snd (map_fieldmap_estimation env bold_data ign us fs) = Inl (ValueError m) \<longrightarrow>
      us = SynStr ''error'' \<and>
      find_estimators env (syn_truthy us \<or> ign \<and> fs) (fs \<or> ign \<and> syn_truthy us) = [])"
proof (intro conjI impI allI)
  assume e: "find_estimators env (syn_truthy us \<or> ign \<and> fs) (fs \<or> ign \<and> syn_truthy us) = []"
  show m: "snd (map_fieldmap_estimation env bold_data ign us fs) =
        (if us = SynStr ''error'' then Inl (ValueError AbsentPhaseEncoding) else Inr ([], []))"
  proof (cases "\<not> ign \<or> syn_truthy us \<or> fs")
    case False
    then have "us \<noteq> SynStr ''error''" by auto
    with False show ?thesis by (simp add: mfe_off)
  next
    case True
    show ?thesis unfolding mfe_none[OF True e] by auto
  qed
  show "snd (init_single_subject_fit_wf_fieldmaps env bold_data ign us fs) =
        (if us = SynStr ''error'' then Inl (ValueError AbsentPhaseEncoding) else Inr ([], [], []))"
    using m unfolding init_single_subject_fit_wf_fieldmaps_def
    by (cases "map_fieldmap_estimation env bold_data ign us fs") (auto split: sum.splits if_splits)
next
  fix m assume v: "snd (map_fieldmap_estimation env bold_data ign us fs) = Inl (ValueError m)"
  show "us = SynStr ''error''"
    by (rule conjunct1[OF mfe_value_error[OF v]])
  show "find_estimators env (syn_truthy us \<or> ign \<and> fs) (fs \<or> ign \<and> syn_truthy us) = []"
    by (rule conjunct2[OF mfe_value_error[OF v]])
qed

lemma example_run:
  "map_fieldmap_estimation example_env example_bold False (SynBool False) False =
     ([(WARNING, SeveralFieldmaps [''fmap_0'', ''fmap_1''] ''run-1_bold'' ''fmap_0'')],
      Inr ([example_fmap0], [(''run-1_bold'', ''fmap_0'')]))"
  by code_simp

lemma example_candidates:
  "candidates example_env False (SynBool False) False ''run-1_bold'' = [''fmap_0'', ''fmap_1'']"
  by (simp add: candidates_def known_estimators_def example_env_def
      example_fmap0_def example_fmap1_def Let_def)

lemma example_keys: "series_keys example_bold = {''run-1_bold'', ''run-2_echo-1_bold''}"
  by (auto simp: series_keys_def example_bold_def)

theorem C2_first_candidate_wins_witness:
  "map_fieldmap_estimation example_env example_bold False (SynBool False) False =
     ([(WARNING, SeveralFieldmaps [''fmap_0'', ''fmap_1''] ''run-1_bold'' ''fmap_0'')],
      Inr ([example_fmap0], [(''run-1_bold'', ''fmap_0'')])) \<and>
   ''run-1_bold'' \<in> series_keys example_bold \<and>
   candidates example_env False (SynBool False) False ''run-1_bold'' = [''fmap_0'', ''fmap_1''] \<and>
   map_of [(''run-1_bold'', ''fmap_0'')] ''run-1_bold'' = Some ''fmap_0'' \<and>
   filter (warning_about ''run-1_bold'')
     [(WARNING, SeveralFieldmaps [''fmap_0'', ''fmap_1''] ''run-1_bold'' ''fmap_0'')] =
     [(WARNING, SeveralFieldmaps [''fmap_0'', ''fmap_1''] ''run-1_bold'' ''fmap_0'')]"
proof -
  have k: "''run-1_bold'' \<in> series_keys example_bold" by (simp add: example_keys)
  have l: "length (candidates example_env False (SynBool False) False ''run-1_bold'') > 1"
    by (simp add: example_candidates)
  from C2_first_candidate_wins[OF example_run k l] show ?thesis
    using example_run k by (simp add: example_candidates)
qed

theorem C3_pruned_is_image_witness:
  "map_fieldmap_estimation example_env example_bold False (SynBool False) False =
     ([(WARNING, SeveralFieldmaps [''fmap_0'', ''fmap_1''] ''run-1_bold'' ''fmap_0'')],
      Inr ([example_fmap0], [(''run-1_bold'', ''fmap_0'')])) \<and>
   bids_id ` set [example_fmap0] = snd ` set [(''run-1_bold'', ''fmap_0'')]"
  using C3_pruned_is_image[OF example_run] example_run by simp

text \<open>
  The claim that every run is in the domain of the map fails: the three-echo run of the
  example declares no estimator and is absent from the returned map.
\<close>

theorem C4_total_domain_counterexample:
  "snd (map_fieldmap_estimation example_env example_bold False (SynBool False) False) =
     Inr ([example_fmap0], [(''run-1_bold'', ''fmap_0'')]) \<and>
   ''run-2_echo-1_bold'' \<in> series_keys example_bold \<and>
   ''run-2_echo-1_bold'' \<notin> fst ` set [(''run-1_bold'', ''fmap_0'')]"
  by (simp add: example_run example_keys)

theorem C4_assignment_domain_witness:
  "map_fieldmap_estimation example_env example_bold False (SynBool False) False =
     ([(WARNING, SeveralFieldmaps [''fmap_0'', ''fmap_1''] ''run-1_bold'' ''fmap_0'')],
      Inr ([example_fmap0], [(''run-1_bold'', ''fmap_0'')])) \<and>
   fst ` set [(''run-1_bold'', ''fmap_0'')] =
     {f \<in> series_keys example_bold. candidates example_env False (SynBool False) False f \<noteq> []} \<and>
   map_of [(''run-1_bold'', ''fmap_0'')] ''run-1_bold'' = Some ''fmap_0'' \<and>
   ''fmap_0'' \<in> bids_id ` set [example_fmap0]"
proof -
  from C4_assignment_domain[OF example_run]
  have "fst ` set [(''run-1_bold'', ''fmap_0'')] =
     {f \<in> series_keys example_bold. candidates example_env False (SynBool False) False f \<noteq> []}"
   and "\<forall>f i. map_of [(''run-1_bold'', ''fmap_0'')] f = Some i \<longrightarrow> i \<in> bids_id ` set [example_fmap0]"
    by blast+
  then show ?thesis using example_run by simp
qed

theorem C5_no_estimators_witness:
  "find_estimators empty_env True False = [] \<and>
   snd (map_fieldmap_estimation empty_env example_bold False (SynBool True) False) = Inr ([], []) \<and>
   snd (init_single_subject_fit_wf_fieldmaps empty_env example_bold False (SynBool True) False) =
     Inr ([], [], []) \<and>
   snd (map_fieldmap_estimation empty_env example_bold False (SynStr ''error'') False) =
     Inl (ValueError AbsentPhaseEncoding)"
proof -
  have e: "find_estimators empty_env True False = []" by (simp add: empty_env_def)
  from C5_no_estimators[of empty_env "SynBool True" False False example_bold] e
  have a: "snd (map_fieldmap_estimation empty_env example_bold False (SynBool True) False) = Inr ([], [])"
    and b: "snd (init_single_subject_fit_wf_fieldmaps empty_env example_bold False (SynBool True) False) =
     Inr ([], [], [])"
    by simp_all
  from C5_no_estimators[of empty_env "SynStr ''error''" False False example_bold] e
  have c: "snd (map_fieldmap_estimation empty_env example_bold False (SynStr ''error'') False) =
     Inl (ValueError AbsentPhaseEncoding)"
    by simp
  from a b c e show ?thesis by simp
qed

lemma set_fold_add_node: "set (fold add_node ns ms) = set ms \<union> set ns"
  by (induction ns arbitrary: ms) (auto simp: add_node_def)

lemma nodes_connect:
  "set (nodes (connect cs w)) = set (nodes w) \<union> set (concat (map (\<lambda>(src, dst, ports). [src, dst]) cs))"
  by (simp add: connect_def set_fold_add_node)

lemma nodes_set_input: "nodes (set_input a b v w) = nodes w"
  by (simp add: set_input_def)

lemma nodes_set_iterables: "nodes (set_iterables a b v w) = nodes w"
  by (simp add: set_iterables_def)

lemma nodes_add_nodes: "set (nodes (add_nodes ns w)) = set (nodes w) \<union> set ns"
  by (simp add: add_nodes_def set_fold_add_node)

lemma nodes_Workflow: "nodes Workflow = []"
  by (simp add: Workflow_def)

lemmas nodes_simps = nodes_connect nodes_set_input nodes_set_iterables nodes_add_nodes nodes_Workflow

lemma incoming_connect:
  "incoming (connect cs w) n p =
     incoming w n p @
     map (\<lambda>(src, out, dst, inp). (src, out))
       (filter (\<lambda>(src, out, dst, inp). dst = n \<and> inp = p)
          (concat (map (\<lambda>(src, dst, ports). map (\<lambda>(out, inp). (src, out, dst, inp)) ports) cs)))"
  by (simp add: incoming_def connect_def)

lemma incoming_set_input: "incoming (set_input a b v w) n p = incoming w n p"
  by (simp add: incoming_def set_input_def)

lemma incoming_set_iterables: "incoming (set_iterables a b v w) n p = incoming w n p"
  by (simp add: incoming_def set_iterables_def)

lemma incoming_add_nodes: "incoming (add_nodes ns w) n p = incoming w n p"
  by (simp add: incoming_def add_nodes_def)

lemma incoming_Workflow: "incoming Workflow n p = []"
  by (simp add: incoming_def Workflow_def)

lemmas incoming_simps = incoming_connect incoming_set_input incoming_set_iterables
  incoming_add_nodes incoming_Workflow

lemma assigned_connect: "assigned (connect cs w) n p = assigned w n p"
  by (simp add: assigned_def connect_def)

lemma assigned_set_input:
  "assigned (set_input a b v w) n p = (if a = n \<and> b = p then v else assigned w n p)"
  by (simp add: assigned_def set_input_def)

lemma assigned_set_iterables: "assigned (set_iterables a b v w) n p = assigned w n p"
  by (simp add: assigned_def set_iterables_def)

lemma assigned_add_nodes: "assigned (add_nodes ns w) n p = assigned w n p"
  by (simp add: assigned_def add_nodes_def)

lemma assigned_Workflow: "assigned Workflow n p = Undefined"
  by (simp add: assigned_def Workflow_def)

lemmas assigned_simps = assigned_connect assigned_set_input assigned_set_iterables
  assigned_add_nodes assigned_Workflow

lemma receives_Suc: "receives k w n p = Some v \<Longrightarrow> receives (Suc k) w n p = Some v"
proof (induction k arbitrary: n p v)
  case 0
  then show ?case by simp
next
  case (Suc k)
  show ?case
  proof (cases "incoming w n p")
    case Nil
    with Suc.prems show ?thesis by simp
  next
    case (Cons e es)
    show ?thesis
    proof (cases es)
      case Nil
      obtain src out where e: "e = (src, out)" by (cases e)
      show ?thesis
      proof (cases "interface_of src")
        case IdentityInterface
        with Suc.prems Cons Nil e have "receives k w src out = Some v" by simp
        from Suc.IH[OF this] show ?thesis using Cons Nil e IdentityInterface by simp
      next
        case Function_select_ref
        with Suc.prems Cons Nil e obtain a b where
          a: "receives k w src ''sbref_files'' = Some a" and
          b: "receives k w src ''boldref_files'' = Some b" and
          v: "v = select_ref a b"
          by (auto split: option.splits)
        from Suc.IH[OF a] Suc.IH[OF b] v show ?thesis
          using Cons Nil e Function_select_ref by simp
      next
        case JoinNode
        with Suc.prems Cons Nil e show ?thesis by simp
      next
        case Stage
        with Suc.prems Cons Nil e show ?thesis by simp
      qed
    next
      case (Cons e' es')
      with Suc.prems \<open>incoming w n p = e # es\<close> show ?thesis by (cases e) simp
    qed
  qed
qed

lemma receives_mono:
  assumes "receives k w n p = Some v" and "k \<le> k'"
  shows "receives k' w n p = Some v"
proof -
  from assms(2) obtain d where d: "k' = k + d" by (auto simp: le_iff_add)
  have "receives (k + d) w n p = Some v"
  proof (induction d)
    case 0
    show ?case using assms(1) by simp
  next
    case (Suc d)
    from receives_Suc[OF Suc] show ?case by simp
  qed
  with d show ?thesis by simp
qed

lemma port_valueI:
  assumes "receives k w n p = Some v" and "k \<le> Suc (length (edges w))"
  shows "port_value w n p = Some v"
proof -
  from assms(2) have "k \<le> Suc (length (nodes w) + length (edges w))" by simp
  from receives_mono[OF assms(1) this] show ?thesis by (simp add: port_value_def)
qed

lemma edges_set_input: "edges (set_input a b v w) = edges w"
  by (simp add: set_input_def)

lemma edges_add_nodes: "edges (add_nodes ns w) = edges w"
  by (simp add: add_nodes_def)

lemma edges_connect: "edges (connect cs w) = edges w @ edges (connect cs Workflow)"
  by (simp add: connect_def Workflow_def)

lemma edges_Workflow: "edges Workflow = []"
  by (simp add: Workflow_def)

lemma edges_set_iterables: "edges (set_iterables a b v w) = edges w"
  by (simp add: set_iterables_def)

lemma inputs_connect: "inputs (connect cs w) = inputs w"
  by (simp add: connect_def)

lemma inputs_set_input: "inputs (set_input a b v w) = ((a, b), v) # inputs w"
  by (simp add: set_input_def)

lemma inputs_add_nodes: "inputs (add_nodes ns w) = inputs w"
  by (simp add: add_nodes_def)

lemma inputs_set_iterables: "inputs (set_iterables a b v w) = inputs w"
  by (simp add: set_iterables_def)

lemma inputs_Workflow: "inputs Workflow = []"
  by (simp add: Workflow_def)

lemma ite_True: "ite True x y = x"
  by (simp add: ite_def)

lemma ite_False: "ite False x y = y"
  by (simp add: ite_def)

lemma ite_same: "ite c x x = x"
  by (simp add: ite_def)

lemmas ite_simps = ite_True ite_False ite_same

lemma incoming_if:
  "incoming (if c then a else b) n p = ite c (incoming a n p) (incoming b n p)"
  by (simp add: ite_def)

lemma incoming_case_option:
  "incoming (case x of None \<Rightarrow> a | Some y \<Rightarrow> b y) n p =
     (case x of None \<Rightarrow> incoming a n p | Some y \<Rightarrow> incoming (b y) n p)"
  by (cases x) simp_all

lemma nodes_if:
  "set (nodes (if c then a else b)) = ite c (set (nodes a)) (set (nodes b))"
  by (simp add: ite_def)

lemma nodes_case_option:
  "set (nodes (case x of None \<Rightarrow> a | Some y \<Rightarrow> b y)) =
     (case x of None \<Rightarrow> set (nodes a) | Some y \<Rightarrow> set (nodes (b y)))"
  by (cases x) simp_all

lemma assigned_assigned_or: "assigned w n p = assigned_or w n p Undefined"
  by (simp add: assigned_def assigned_or_def)

lemma assigned_or_connect: "assigned_or (connect cs w) n p d = assigned_or w n p d"
  by (simp add: assigned_or_def connect_def)

lemma assigned_or_set_input:
  "assigned_or (set_input a b v w) n p d = (if a = n \<and> b = p then v else assigned_or w n p d)"
  by (simp add: assigned_or_def set_input_def)

lemma assigned_or_set_iterables: "assigned_or (set_iterables a b v w) n p d = assigned_or w n p d"
  by (simp add: assigned_or_def set_iterables_def)

lemma assigned_or_add_nodes: "assigned_or (add_nodes ns w) n p d = assigned_or w n p d"
  by (simp add: assigned_or_def add_nodes_def)

lemma assigned_or_Workflow: "assigned_or Workflow n p d = d"
  by (simp add: assigned_or_def Workflow_def)

lemma assigned_or_if:
  "assigned_or (if c then a else b) n p d =
     ite c (assigned_or a n p d) (assigned_or b n p d)"
  by (simp add: ite_def)

lemma assigned_or_case_option:
  "assigned_or (case x of None \<Rightarrow> a | Some y \<Rightarrow> b y) n p d =
     (case x of None \<Rightarrow> assigned_or a n p d | Some y \<Rightarrow> assigned_or (b y) n p d)"
  by (cases x) simp_all

lemmas assigned_or_simps = assigned_or_connect assigned_or_set_input assigned_or_set_iterables
  assigned_or_add_nodes assigned_or_Workflow assigned_or_if assigned_or_case_option

lemma assigned_or_frame:
  "inputs w' = inputs a @ inputs w \<Longrightarrow>
   assigned_or w' n p d = assigned_or a n p (assigned_or w n p d)"
  by (auto simp: assigned_or_def map_add_def split: option.splits)

lemma nodes_connect_frame:
  "set (nodes (connect cs w)) = set (nodes w) \<union> set (nodes (connect cs Workflow))"
  by (simp add: nodes_connect nodes_Workflow)

section \<open>Properties of the fit workflow\<close>

text \<open>Each part of the fit workflow adds to what is there.\<close>

lemma fit_stage1_edges: "edges (fit_stage1 b pre w) = edges w @ edges (fit_stage1 b pre Workflow)"
  by (simp add: fit_stage1_def connect_def set_input_def Workflow_def split: option.splits)

lemma fit_stage2_edges: "edges (fit_stage2 b pre w) = edges w @ edges (fit_stage2 b pre Workflow)"
  by (simp add: fit_stage2_def connect_def set_input_def Workflow_def Let_def)

lemma fit_fmapreg_edges: "edges (fit_fmapreg pre w) = edges w @ edges (fit_fmapreg pre Workflow)"
  by (simp add: fit_fmapreg_def connect_def set_input_def Workflow_def Let_def)

lemma fit_unwarp_edges: "edges (fit_unwarp fid pre w) = edges w @ edges (fit_unwarp fid pre Workflow)"
  unfolding fit_unwarp_def Let_def
  by (subst (1 2) edges_connect) (simp add: edges_set_input fit_fmapreg_edges[of pre "set_input _ _ _ _"] edges_Workflow)

lemma fit_stage3_edges:
  "edges (fit_stage3 sb pre fid w) = edges w @ edges (fit_stage3 sb pre fid Workflow)"
proof (cases "coreg_boldref pre")
  case None
  show ?thesis
  proof (cases "id_truthy fid")
    case True
    show ?thesis
      unfolding fit_stage3_def Let_def
      by (simp add: None True fit_unwarp_edges[of _ pre "connect _ _"] edges_connect[of _ "set_input _ _ _ _"]
          edges_set_input edges_Workflow)
  next
    case False
    show ?thesis
      unfolding fit_stage3_def Let_def
      by (simp add: None False edges_connect[of _ "connect _ _"] edges_connect[of _ "set_input _ _ _ _"]
          edges_set_input edges_Workflow)
  qed
next
  case (Some a)
  then show ?thesis by (simp add: fit_stage3_def edges_set_input edges_Workflow)
qed

lemma fit_stage4_edges: "edges (fit_stage4 pre w) = edges w @ edges (fit_stage4 pre Workflow)"
  by (simp add: fit_stage4_def connect_def set_input_def Workflow_def Let_def)

lemma fit_graph_edges:
  "edges (fit_graph bs b sb pre fid) =
     edges (fit_connections Workflow) @ edges (fit_stage1 b pre Workflow) @
     edges (fit_stage2 b pre Workflow) @ edges (fit_stage3 sb pre fid Workflow) @
     edges (fit_stage4 pre Workflow)"
  unfolding fit_graph_def Let_def
  apply (subst fit_stage4_edges)
  apply (subst fit_stage3_edges)
  apply (subst fit_stage2_edges)
  apply (subst fit_stage1_edges)
  apply (simp add: fit_connections_def edges_connect[of _ "set_input _ _ _ _"] edges_set_input edges_add_nodes edges_Workflow)
  done

lemma fit_graph_incoming:
  "incoming (fit_graph bs b sb pre fid) n p =
     incoming (fit_connections Workflow) n p @ incoming (fit_stage1 b pre Workflow) n p @
     incoming (fit_stage2 b pre Workflow) n p @ incoming (fit_stage3 sb pre fid Workflow) n p @
     incoming (fit_stage4 pre Workflow) n p"
  by (simp add: incoming_def fit_graph_edges)

lemmas stage_defs = fit_connections_def fit_stage1_def fit_stage2_def
  fit_stage3_def fit_unwarp_def fit_fmapreg_def fit_stage4_def

lemmas incoming_eval = fit_graph_incoming stage_defs incoming_simps incoming_if incoming_case_option
  ite_simps Let_def

lemma fit_stage1_inputs: "inputs (fit_stage1 b pre w) = inputs (fit_stage1 b pre Workflow) @ inputs w"
  by (simp add: fit_stage1_def connect_def set_input_def Workflow_def split: option.splits)

lemma fit_stage2_inputs: "inputs (fit_stage2 b pre w) = inputs (fit_stage2 b pre Workflow) @ inputs w"
  by (simp add: fit_stage2_def connect_def set_input_def Workflow_def Let_def)

lemma fit_fmapreg_inputs: "inputs (fit_fmapreg pre w) = inputs (fit_fmapreg pre Workflow) @ inputs w"
  by (simp add: fit_fmapreg_def connect_def set_input_def Workflow_def Let_def)

lemma fit_unwarp_inputs: "inputs (fit_unwarp fid pre w) = inputs (fit_unwarp fid pre Workflow) @ inputs w"
  unfolding fit_unwarp_def Let_def
  by (simp add: inputs_connect inputs_set_input fit_fmapreg_inputs[of pre "set_input _ _ _ _"] inputs_Workflow)

lemma fit_stage3_inputs:
  "inputs (fit_stage3 sb pre fid w) = inputs (fit_stage3 sb pre fid Workflow) @ inputs w"
  unfolding fit_stage3_def Let_def
  by (simp add: inputs_connect inputs_set_input fit_unwarp_inputs[of _ pre "connect _ _"] inputs_Workflow
      split: option.splits)

lemma fit_stage4_inputs: "inputs (fit_stage4 pre w) = inputs (fit_stage4 pre Workflow) @ inputs w"
  by (simp add: fit_stage4_def connect_def set_input_def Workflow_def Let_def)

lemma fit_graph_assigned:
  "assigned (fit_graph bs b sb pre fid) n p =
     assigned_or (fit_stage4 pre Workflow) n p
       (assigned_or (fit_stage3 sb pre fid Workflow) n p
          (assigned_or (fit_stage2 b pre Workflow) n p
             (assigned_or (fit_stage1 b pre Workflow) n p
                (assigned_or
                   (set_input summary ''dummy_scans'' (Setting ''config.workflow.dummy_scans'')
                      (set_input inputnode ''bold_file'' (Const (PyList bs)) Workflow))
                   n p Undefined))))"
  unfolding fit_graph_def Let_def assigned_assigned_or
  apply (subst assigned_or_frame[OF fit_stage4_inputs])
  apply (subst assigned_or_frame[OF fit_stage3_inputs])
  apply (subst assigned_or_frame[OF fit_stage2_inputs])
  apply (subst assigned_or_frame[OF fit_stage1_inputs])
  apply (simp add: fit_connections_def assigned_or_connect assigned_or_add_nodes assigned_or_set_input)
  done

lemma fit_stage1_nodes:
  "set (nodes (fit_stage1 b pre w)) = set (nodes w) \<union> set (nodes (fit_stage1 b pre Workflow))"
  by (simp add: fit_stage1_def nodes_simps split: option.splits)

lemma fit_stage2_nodes:
  "set (nodes (fit_stage2 b pre w)) = set (nodes w) \<union> set (nodes (fit_stage2 b pre Workflow))"
  by (simp add: fit_stage2_def nodes_simps Let_def)

lemma fit_fmapreg_nodes:
  "set (nodes (fit_fmapreg pre w)) = set (nodes w) \<union> set (nodes (fit_fmapreg pre Workflow))"
  by (simp add: fit_fmapreg_def nodes_simps Let_def)

lemma fit_unwarp_nodes:
  "set (nodes (fit_unwarp fid pre w)) = set (nodes w) \<union> set (nodes (fit_unwarp fid pre Workflow))"
  unfolding fit_unwarp_def Let_def
  by (subst (1 2) nodes_connect_frame)
     (auto simp: nodes_set_input fit_fmapreg_nodes[of pre "set_input _ _ _ _"] nodes_Workflow)

lemma fit_stage3_nodes:
  "set (nodes (fit_stage3 sb pre fid w)) = set (nodes w) \<union> set (nodes (fit_stage3 sb pre fid Workflow))"
proof (cases "coreg_boldref pre")
  case None
  show ?thesis
  proof (cases "id_truthy fid")
    case True
    show ?thesis
      unfolding fit_stage3_def Let_def
      by (simp add: None True fit_unwarp_nodes[of _ pre "connect _ _"]
            nodes_connect_frame[of _ "set_input _ _ _ _"] nodes_set_input nodes_Workflow Un_assoc)
  next
    case False
    show ?thesis
      unfolding fit_stage3_def Let_def
      by (simp add: None False nodes_connect_frame[of _ "connect _ _"]
            nodes_connect_frame[of _ "set_input _ _ _ _"] nodes_set_input nodes_Workflow Un_assoc)
  qed
next
  case (Some a)
  then show ?thesis by (simp add: fit_stage3_def nodes_set_input nodes_Workflow)
qed

lemma fit_stage4_nodes:
  "set (nodes (fit_stage4 pre w)) = set (nodes w) \<union> set (nodes (fit_stage4 pre Workflow))"
  by (simp add: fit_stage4_def nodes_simps Let_def)

lemma fit_graph_nodes:
  "set (nodes (fit_graph bs b sb pre fid)) =
     {inputnode} \<union> set (nodes (fit_connections Workflow)) \<union> set (nodes (fit_stage1 b pre Workflow)) \<union>
     set (nodes (fit_stage2 b pre Workflow)) \<union> set (nodes (fit_stage3 sb pre fid Workflow)) \<union>
     set (nodes (fit_stage4 pre Workflow))"
proof -
  have "set (nodes (fit_connections
          (set_input summary ''dummy_scans'' (Setting ''config.workflow.dummy_scans'')
             (add_nodes [inputnode]
                (set_input inputnode ''bold_file'' (Const (PyList bs)) Workflow))))) =
        {inputnode} \<union> set (nodes (fit_connections Workflow))"
    by (auto simp: fit_connections_def nodes_simps)
  then show ?thesis
    unfolding fit_graph_def Let_def
    by (simp only: fit_stage4_nodes[of pre "fit_stage3 _ _ _ _"]
          fit_stage3_nodes[of _ _ _ "fit_stage2 _ _ _"]
          fit_stage2_nodes[of _ _ "fit_stage1 _ _ _"]
          fit_stage1_nodes[of _ _ "fit_connections _"])
qed

lemmas assigned_eval = fit_graph_assigned stage_defs assigned_or_simps ite_simps Let_def

lemmas nodes_eval = fit_graph_nodes stage_defs nodes_simps nodes_if nodes_case_option
  ite_simps Let_def

lemma init_bold_fit_wf_graph:
  assumes "init_bold_fit_wf env bs pre fid = Inr flow"
  obtains bold_files sb where
    "sorted_by_echo_time (get_metadata env) bs = Inr bold_files"
    "get_sbrefs env bold_files = Inr sb"
    "bold_files \<noteq> []"
    "flow = fit_graph bs (bold_files ! 0) sb pre fid"
  using assms unfolding init_bold_fit_wf_def
  by (auto split: sum.splits list.splits option.splits)

lemma fit_graph_edges_length: "4 \<le> length (edges (fit_graph bs b sb pre fid))"
  by (simp add: fit_graph_edges fit_connections_def connect_def Workflow_def)

lemma fit_port_valueI:
  "receives k (fit_graph bs b sb pre fid) n p = Some v \<Longrightarrow> k \<le> 5 \<Longrightarrow>
   port_value (fit_graph bs b sb pre fid) n p = Some v"
  using fit_graph_edges_length[of bs b sb pre fid] by (auto intro: port_valueI)

text \<open>The edges into the fields of \<^verbatim>\<open>outputnode\<close> and into the buffers.\<close>

lemma in_out_hmc_boldref:
  "incoming (fit_graph bs b sb pre fid) outputnode ''hmc_boldref'' = [(hmcref_buffer, ''boldref'')]"
  by (simp add: incoming_eval ite_def cong: option.case_cong split: option.splits)

lemma in_out_motion_xfm:
  "incoming (fit_graph bs b sb pre fid) outputnode ''motion_xfm'' = [(hmc_buffer, ''hmc_xforms'')]"
  by (simp add: incoming_eval ite_def cong: option.case_cong split: option.splits)

lemma in_out_coreg_boldref:
  "incoming (fit_graph bs b sb pre fid) outputnode ''coreg_boldref'' = [(regref_buffer, ''boldref'')]"
  by (simp add: incoming_eval ite_def cong: option.case_cong split: option.splits)

lemma in_out_bold_mask:
  "incoming (fit_graph bs b sb pre fid) outputnode ''bold_mask'' = [(regref_buffer, ''boldmask'')]"
  by (simp add: incoming_eval ite_def cong: option.case_cong split: option.splits)

lemma in_out_boldref2anat:
  "incoming (fit_graph bs b sb pre fid) outputnode ''boldref2anat_xfm'' =
     (if truthy (dict_get (transforms pre) ''boldref2anat'') then []
      else [(ds_boldreg_wf, ''outputnode.xform'')])"
  by (simp add: incoming_eval ite_def cong: option.case_cong split: option.splits)

lemma in_hmcref_boldref:
  "incoming (fit_graph bs b sb pre fid) hmcref_buffer ''boldref'' =
     (case hmc_boldref pre of None \<Rightarrow> [(hmc_boldref_wf, ''outputnode.boldref'')] | Some a \<Rightarrow> [])"
  by (simp add: incoming_eval ite_def cong: option.case_cong split: option.splits)

lemma in_hmc_xforms:
  "incoming (fit_graph bs b sb pre fid) hmc_buffer ''hmc_xforms'' =
     (if truthy (dict_get (transforms pre) ''hmc'') then []
      else [(ds_hmc_wf, ''outputnode.xforms'')])"
  by (simp add: incoming_eval ite_def cong: option.case_cong split: option.splits)

lemma in_regref_boldref:
  "incoming (fit_graph bs b sb pre fid) regref_buffer ''boldref'' =
     (case coreg_boldref pre of None \<Rightarrow> [(ds_coreg_boldref_wf, ''outputnode.boldref'')] | Some a \<Rightarrow> [])"
  by (simp add: incoming_eval ite_def cong: option.case_cong split: option.splits)

lemma as_hmcref_boldref:
  "assigned (fit_graph bs b sb pre fid) hmcref_buffer ''boldref'' =
     (case hmc_boldref pre of None \<Rightarrow> Undefined | Some a \<Rightarrow> Const a)"
  by (simp add: assigned_eval ite_def cong: option.case_cong split: option.splits)

lemma as_hmc_xforms:
  "assigned (fit_graph bs b sb pre fid) hmc_buffer ''hmc_xforms'' =
     (if truthy (dict_get (transforms pre) ''hmc'') then Const (dict_get (transforms pre) ''hmc'')
      else Undefined)"
  by (simp add: assigned_eval ite_def cong: option.case_cong split: option.splits)

lemma as_regref_boldref:
  "assigned (fit_graph bs b sb pre fid) regref_buffer ''boldref'' =
     (case coreg_boldref pre of None \<Rightarrow> Undefined | Some a \<Rightarrow> Const a)"
  by (simp add: assigned_eval ite_def cong: option.case_cong split: option.splits)

lemma as_out_boldref2anat:
  "assigned (fit_graph bs b sb pre fid) outputnode ''boldref2anat_xfm'' =
     (if truthy (dict_get (transforms pre) ''boldref2anat'')
      then Const (dict_get (transforms pre) ''boldref2anat'') else Undefined)"
  by (simp add: assigned_eval ite_def cong: option.case_cong split: option.splits)

text \<open>The nodes of the four stage groups.\<close>

lemma nodes_stage1:
  "hmc_boldref pre = Some a \<Longrightarrow>
   hmc_boldref_wf \<notin> set (nodes (fit_graph bs b sb pre fid)) \<and>
   ds_hmc_boldref_wf \<notin> set (nodes (fit_graph bs b sb pre fid))"
  by (simp add: nodes_eval ite_def cong: option.case_cong split: option.splits)

lemma nodes_stage2:
  "truthy (dict_get (transforms pre) ''hmc'') \<Longrightarrow>
   bold_hmc_wf \<notin> set (nodes (fit_graph bs b sb pre fid)) \<and>
   ds_hmc_wf \<notin> set (nodes (fit_graph bs b sb pre fid))"
  by (simp add: nodes_eval ite_def cong: option.case_cong split: option.splits)

lemma nodes_stage3:
  "coreg_boldref pre = Some a \<Longrightarrow>
   n \<in> {fmapref_buffer, enhance_boldref_wf, ds_coreg_boldref_wf,
        fmap_select, fmapreg_wf, itk_mat2txt, ds_fmapreg_wf, unwarp_wf} \<Longrightarrow>
   n \<notin> set (nodes (fit_graph bs b sb pre fid))"
  by (simp add: nodes_eval ite_def cong: option.case_cong split: option.splits) auto

lemma nodes_stage4:
  "truthy (dict_get (transforms pre) ''boldref2anat'') \<Longrightarrow>
   bold_reg_wf \<notin> set (nodes (fit_graph bs b sb pre fid)) \<and>
   ds_boldreg_wf \<notin> set (nodes (fit_graph bs b sb pre fid))"
  by (simp add: nodes_eval ite_def cong: option.case_cong split: option.splits)


text \<open>The group that builds the coregistration reference.\<close>

lemma in_enhance_in_file:
  "coreg_boldref pre = None \<Longrightarrow>
   incoming (fit_graph bs b sb pre fid) enhance_boldref_wf ''inputnode.in_file'' =
     [(fmapref_buffer, ''out'')]"
  by (simp add: incoming_eval ite_def cong: option.case_cong split: option.splits)

lemma in_fmapref_sbref_files:
  "incoming (fit_graph bs b sb pre fid) fmapref_buffer ''sbref_files'' = []"
  by (simp add: incoming_eval ite_def cong: option.case_cong split: option.splits)

lemma as_fmapref_sbref_files:
  "coreg_boldref pre = None \<Longrightarrow>
   assigned (fit_graph bs b sb pre fid) fmapref_buffer ''sbref_files'' = Const (PyList sb)"
  by (simp add: assigned_eval ite_def cong: option.case_cong split: option.splits)

lemma in_fmapref_boldref_files:
  "coreg_boldref pre = None \<Longrightarrow>
   incoming (fit_graph bs b sb pre fid) fmapref_buffer ''boldref_files'' =
     [(hmcref_buffer, ''boldref'')]"
  by (simp add: incoming_eval ite_def cong: option.case_cong split: option.splits)

lemma in_unwarp_xfm:
  "coreg_boldref pre = None \<Longrightarrow> id_truthy fid \<Longrightarrow>
   incoming (fit_graph bs b sb pre fid) unwarp_wf ''inputnode.fmap2data_xfm'' =
     [(fmapreg_buffer, ''boldref2fmap_xfm'')]"
  by (simp add: incoming_eval ite_def cong: option.case_cong split: option.splits)

lemma in_fmapreg_xfm:
  "coreg_boldref pre = None \<Longrightarrow> id_truthy fid \<Longrightarrow>
   incoming (fit_graph bs b sb pre fid) fmapreg_buffer ''boldref2fmap_xfm'' =
     (if truthy (dict_get (transforms pre) ''boldref2fmap'') then []
      else [(ds_fmapreg_wf, ''outputnode.xform'')])"
  by (simp add: incoming_eval ite_def cong: option.case_cong split: option.splits)

lemma as_fmapreg_xfm:
  "coreg_boldref pre = None \<Longrightarrow> id_truthy fid \<Longrightarrow>
   assigned (fit_graph bs b sb pre fid) fmapreg_buffer ''boldref2fmap_xfm'' =
     (if truthy (dict_get (transforms pre) ''boldref2fmap'')
      then Const (dict_get (transforms pre) ''boldref2fmap'') else Undefined)"
  by (simp add: assigned_eval ite_def cong: option.case_cong split: option.splits)

lemma in_ds_coreg_boldref:
  "coreg_boldref pre = None \<Longrightarrow> id_truthy fid \<Longrightarrow>
   incoming (fit_graph bs b sb pre fid) ds_coreg_boldref_wf ''inputnode.boldref'' =
     [(unwarp_wf, ''outputnode.corrected'')]"
  by (simp add: incoming_eval ite_def cong: option.case_cong split: option.splits)

lemma in_regref_boldmask:
  "coreg_boldref pre = None \<Longrightarrow> id_truthy fid \<Longrightarrow>
   incoming (fit_graph bs b sb pre fid) regref_buffer ''boldmask'' =
     [(unwarp_wf, ''outputnode.corrected_mask'')]"
  by (simp add: incoming_eval ite_def cong: option.case_cong split: option.splits)

lemma nodes_unwarp:
  "coreg_boldref pre = None \<Longrightarrow> id_truthy fid \<Longrightarrow>
   unwarp_wf \<in> set (nodes (fit_graph bs b sb pre fid)) \<and>
   fmap_select \<in> set (nodes (fit_graph bs b sb pre fid)) \<and>
   enhance_boldref_wf \<in> set (nodes (fit_graph bs b sb pre fid))"
  by (simp add: nodes_eval ite_def cong: option.case_cong split: option.splits)

lemma nodes_fmapreg:
  "coreg_boldref pre = None \<Longrightarrow> id_truthy fid \<Longrightarrow>
   (fmapreg_wf \<in> set (nodes (fit_graph bs b sb pre fid))) =
     (\<not> truthy (dict_get (transforms pre) ''boldref2fmap'')) \<and>
   (itk_mat2txt \<in> set (nodes (fit_graph bs b sb pre fid))) =
     (\<not> truthy (dict_get (transforms pre) ''boldref2fmap'')) \<and>
   (ds_fmapreg_wf \<in> set (nodes (fit_graph bs b sb pre fid))) =
     (\<not> truthy (dict_get (transforms pre) ''boldref2fmap''))"
  by (simp add: nodes_eval ite_def cong: option.case_cong split: option.splits)

lemma nodes_reporting:
  "inputnode \<in> set (nodes (fit_graph bs b sb pre fid)) \<and>
   summary \<in> set (nodes (fit_graph bs b sb pre fid)) \<and>
   func_fit_reports_wf \<in> set (nodes (fit_graph bs b sb pre fid))"
  by (simp add: fit_graph_nodes fit_connections_def nodes_simps)

lemma edges_reporting:
  "(summary, ''out_report'', func_fit_reports_wf, ''inputnode.summary_report'')
     \<in> set (edges (fit_graph bs b sb pre fid)) \<and>
   (inputnode, ''bold_file'', func_fit_reports_wf, ''inputnode.source_file'')
     \<in> set (edges (fit_graph bs b sb pre fid))"
  by (simp add: fit_graph_edges fit_connections_def connect_def Workflow_def)

text \<open>What the outputs receive.\<close>

lemma value_hmc_boldref:
  "hmc_boldref pre = Some a \<Longrightarrow>
   port_value (fit_graph bs b sb pre fid) outputnode ''hmc_boldref'' = Some (Const a)"
proof -
  assume c: "hmc_boldref pre = Some a"
  have "receives (Suc (Suc 0)) (fit_graph bs b sb pre fid) outputnode ''hmc_boldref'' = Some (Const a)"
    by (simp add: in_out_hmc_boldref in_hmcref_boldref as_hmcref_boldref c)
  then show ?thesis by (rule fit_port_valueI) simp
qed

lemma value_motion_xfm:
  "truthy (dict_get (transforms pre) ''hmc'') \<Longrightarrow>
   port_value (fit_graph bs b sb pre fid) outputnode ''motion_xfm'' =
     Some (Const (dict_get (transforms pre) ''hmc''))"
proof -
  assume c: "truthy (dict_get (transforms pre) ''hmc'')"
  have "receives (Suc (Suc 0)) (fit_graph bs b sb pre fid) outputnode ''motion_xfm'' =
        Some (Const (dict_get (transforms pre) ''hmc''))"
    by (simp add: in_out_motion_xfm in_hmc_xforms as_hmc_xforms c)
  then show ?thesis by (rule fit_port_valueI) simp
qed

lemma value_coreg_boldref:
  "coreg_boldref pre = Some a \<Longrightarrow>
   port_value (fit_graph bs b sb pre fid) outputnode ''coreg_boldref'' = Some (Const a)"
proof -
  assume c: "coreg_boldref pre = Some a"
  have "receives (Suc (Suc 0)) (fit_graph bs b sb pre fid) outputnode ''coreg_boldref'' = Some (Const a)"
    by (simp add: in_out_coreg_boldref in_regref_boldref as_regref_boldref c)
  then show ?thesis by (rule fit_port_valueI) simp
qed

lemma value_boldref2anat:
  "truthy (dict_get (transforms pre) ''boldref2anat'') \<Longrightarrow>
   port_value (fit_graph bs b sb pre fid) outputnode ''boldref2anat_xfm'' =
     Some (Const (dict_get (transforms pre) ''boldref2anat''))"
proof -
  assume c: "truthy (dict_get (transforms pre) ''boldref2anat'')"
  have "receives (Suc 0) (fit_graph bs b sb pre fid) outputnode ''boldref2anat_xfm'' =
        Some (Const (dict_get (transforms pre) ''boldref2anat''))"
    by (simp add: in_out_boldref2anat as_out_boldref2anat c)
  then show ?thesis by (rule fit_port_valueI) simp
qed

lemma cached_slot_graph:
  assumes "cached pre X = Some a"
  shows "set (producers X) \<inter> set (nodes (fit_graph bs b sb pre fid)) = {} \<and>
         port_value (fit_graph bs b sb pre fid) outputnode (output_field X) = Some (Const a)"
proof (cases X)
  case Hmc_boldref
  with assms have c: "hmc_boldref pre = Some a" by simp
  from nodes_stage1[OF c] value_hmc_boldref[OF c] show ?thesis
    unfolding Hmc_boldref by simp
next
  case Transforms_hmc
  with assms have c: "truthy (dict_get (transforms pre) ''hmc'')"
    and a: "a = dict_get (transforms pre) ''hmc''"
    by (auto split: if_splits)
  from nodes_stage2[OF c] value_motion_xfm[OF c] show ?thesis
    unfolding Transforms_hmc a by simp
next
  case Coreg_boldref
  with assms have c: "coreg_boldref pre = Some a" by simp
  have "\<forall>n \<in> set (producers Coreg_boldref). n \<notin> set (nodes (fit_graph bs b sb pre fid))"
    using nodes_stage3[OF c] by simp
  then have "set (producers Coreg_boldref) \<inter> set (nodes (fit_graph bs b sb pre fid)) = {}"
    by blast
  with value_coreg_boldref[OF c] show ?thesis
    unfolding Coreg_boldref by simp
next
  case Transforms_boldref2anat
  with assms have c: "truthy (dict_get (transforms pre) ''boldref2anat'')"
    and a: "a = dict_get (transforms pre) ''boldref2anat''"
    by (auto split: if_splits)
  from nodes_stage4[OF c] value_boldref2anat[OF c] show ?thesis
    unfolding Transforms_boldref2anat a by simp
qed

text \<open>
  C1. If the fit workflow is built and a slot among \<^verbatim>\<open>hmc_boldref\<close>,
  \<^verbatim>\<open>transforms.hmc\<close>, \<^verbatim>\<open>coreg_boldref\<close> and \<^verbatim>\<open>transforms.boldref2anat\<close> is cached
  (for the two transforms: \<^verbatim>\<open>transforms.get(...)\<close> is true, the test of the source),
  then none of the nodes that produce the slot is in the graph, and the field of
  \<^verbatim>\<open>outputnode\<close> for the slot receives the cached artifact itself.
\<close>

theorem C1_cached_slot_reused:
  assumes "init_bold_fit_wf env bold_series pre fieldmap_id = Inr flow"
      and "cached pre X = Some a"
  shows "set (producers X) \<inter> set (nodes flow) = {} \<and>
         port_value flow outputnode (output_field X) = Some (Const a)"
proof -
  from assms(1) obtain bold_files sb where "flow = fit_graph bold_series (bold_files ! 0) sb pre fieldmap_id"
    by (rule init_bold_fit_wf_graph)
  with cached_slot_graph[OF assms(2)] show ?thesis by simp
qed

text \<open>The node \<^verbatim>\<open>inputnode\<close> enters the graph before any connection is made.\<close>

lemma fold_add_node_Cons: "\<exists>ys. fold add_node ns (m # ms) = m # ys"
  by (induction ns arbitrary: ms) (auto simp: add_node_def)

lemma first_connect:
  "first_node w = Some n \<Longrightarrow> first_node (connect cs w) = Some n"
proof -
  assume "first_node w = Some n"
  then obtain ms where m: "nodes w = n # ms"
    by (auto simp: first_node_def split: list.splits)
  from fold_add_node_Cons[of _ n ms] obtain ys where
    "fold add_node (concat (map (\<lambda>(src, dst, ports). [src, dst]) cs)) (n # ms) = n # ys"
    by blast
  with m show ?thesis by (simp add: connect_def first_node_def)
qed

lemma first_set_input: "first_node (set_input a b v w) = first_node w"
  by (simp add: set_input_def first_node_def)

lemma first_fit_stage1:
  "first_node w = Some n \<Longrightarrow> first_node (fit_stage1 b pre w) = Some n"
  by (simp add: fit_stage1_def first_connect first_set_input split: option.splits)

lemma first_fit_stage2:
  "first_node w = Some n \<Longrightarrow> first_node (fit_stage2 b pre w) = Some n"
  by (simp add: fit_stage2_def first_connect first_set_input Let_def)

lemma first_fit_fmapreg:
  "first_node w = Some n \<Longrightarrow> first_node (fit_fmapreg pre w) = Some n"
  by (simp add: fit_fmapreg_def first_connect first_set_input Let_def)

lemma first_fit_unwarp:
  "first_node w = Some n \<Longrightarrow> first_node (fit_unwarp fid pre w) = Some n"
  by (simp add: fit_unwarp_def first_connect first_set_input first_fit_fmapreg Let_def)

lemma first_fit_stage3:
  "first_node w = Some n \<Longrightarrow> first_node (fit_stage3 sb pre fid w) = Some n"
  by (simp add: fit_stage3_def first_connect first_set_input first_fit_unwarp Let_def
      split: option.splits)

lemma first_fit_stage4:
  "first_node w = Some n \<Longrightarrow> first_node (fit_stage4 pre w) = Some n"
  by (simp add: fit_stage4_def first_connect first_set_input Let_def)

lemma first_fit_graph: "first_node (fit_graph bs b sb pre fid) = Some inputnode"
proof -
  have "first_node (add_nodes [inputnode]
          (set_input inputnode ''bold_file'' (Const (PyList bs)) Workflow)) = Some inputnode"
    by (simp add: add_nodes_def set_input_def Workflow_def add_node_def first_node_def)
  then show ?thesis
    unfolding fit_graph_def Let_def fit_connections_def
    by (intro first_fit_stage4 first_fit_stage3 first_fit_stage2 first_fit_stage1 first_connect)
       (simp add: first_set_input)
qed

text \<open>
  C9. Whatever is cached, the graph of the fit workflow holds \<^verbatim>\<open>inputnode\<close>, which is
  the first node of the graph (it is added on its own, before any connection), and the
  summary and the reports stay connected: \<^verbatim>\<open>summary\<close> and \<^verbatim>\<open>func_fit_reports_wf\<close>
  are nodes of the graph, with the edges from \<^verbatim>\<open>inputnode\<close> and \<^verbatim>\<open>summary\<close> to
  the reports.
\<close>

theorem C9_inputnode_always_present:
  assumes "init_bold_fit_wf env bold_series pre fieldmap_id = Inr flow"
  shows "inputnode \<in> set (nodes flow) \<and> first_node flow = Some inputnode \<and>
         summary \<in> set (nodes flow) \<and>
         func_fit_reports_wf \<in> set (nodes flow) \<and>
         (summary, ''out_report'', func_fit_reports_wf, ''inputnode.summary_report'')
           \<in> set (edges flow) \<and>
         (inputnode, ''bold_file'', func_fit_reports_wf, ''inputnode.source_file'')
           \<in> set (edges flow)"
proof -
  from assms(1) obtain bold_files sb where "flow = fit_graph bold_series (bold_files ! 0) sb pre fieldmap_id"
    by (rule init_bold_fit_wf_graph)
  with nodes_reporting edges_reporting first_fit_graph show ?thesis by simp
qed


lemma value_unwarp_xfm:
  assumes c: "coreg_boldref pre = None" and f: "id_truthy fid"
  shows "port_value (fit_graph bs b sb pre fid) unwarp_wf ''inputnode.fmap2data_xfm'' =
     Some (if truthy (dict_get (transforms pre) ''boldref2fmap'')
           then Const (dict_get (transforms pre) ''boldref2fmap'')
           else Output ds_fmapreg_wf ''outputnode.xform'')"
proof -
  have "receives (Suc (Suc 0)) (fit_graph bs b sb pre fid) unwarp_wf ''inputnode.fmap2data_xfm'' =
     Some (if truthy (dict_get (transforms pre) ''boldref2fmap'')
           then Const (dict_get (transforms pre) ''boldref2fmap'')
           else Output ds_fmapreg_wf ''outputnode.xform'')"
    by (simp add: in_unwarp_xfm[OF c f] in_fmapreg_xfm[OF c f] as_fmapreg_xfm[OF c f])
  then show ?thesis by (rule fit_port_valueI) simp
qed

lemma value_ds_coreg_boldref:
  assumes c: "coreg_boldref pre = None" and f: "id_truthy fid"
  shows "port_value (fit_graph bs b sb pre fid) ds_coreg_boldref_wf ''inputnode.boldref'' =
     Some (Output unwarp_wf ''outputnode.corrected'')"
proof -
  have "receives (Suc 0) (fit_graph bs b sb pre fid) ds_coreg_boldref_wf ''inputnode.boldref'' =
     Some (Output unwarp_wf ''outputnode.corrected'')"
    by (simp add: in_ds_coreg_boldref[OF c f])
  then show ?thesis by (rule fit_port_valueI) simp
qed

lemma value_coreg_output:
  assumes c: "coreg_boldref pre = None"
  shows "port_value (fit_graph bs b sb pre fid) outputnode ''coreg_boldref'' =
     Some (Output ds_coreg_boldref_wf ''outputnode.boldref'')"
proof -
  have "receives (Suc (Suc 0)) (fit_graph bs b sb pre fid) outputnode ''coreg_boldref'' =
     Some (Output ds_coreg_boldref_wf ''outputnode.boldref'')"
    by (simp add: in_out_coreg_boldref in_regref_boldref c)
  then show ?thesis by (rule fit_port_valueI) simp
qed

lemma value_bold_mask:
  assumes c: "coreg_boldref pre = None" and f: "id_truthy fid"
  shows "port_value (fit_graph bs b sb pre fid) outputnode ''bold_mask'' =
     Some (Output unwarp_wf ''outputnode.corrected_mask'')"
proof -
  have "receives (Suc (Suc 0)) (fit_graph bs b sb pre fid) outputnode ''bold_mask'' =
     Some (Output unwarp_wf ''outputnode.corrected_mask'')"
    by (simp add: in_out_bold_mask in_regref_boldmask[OF c f])
  then show ?thesis by (rule fit_port_valueI) simp
qed

text \<open>
  C7. With a fieldmap identifier and no cached coregistration reference, the nodes that
  register the reference to the fieldmap (\<^verbatim>\<open>fmapreg_wf\<close>, \<^verbatim>\<open>itk_mat2txt\<close>,
  \<^verbatim>\<open>ds_fmapreg_wf\<close>) are in the graph exactly when \<^verbatim>\<open>transforms.boldref2fmap\<close> is not
  cached; \<^verbatim>\<open>unwarp_wf\<close> receives the cached transform in the one case and the computed one
  in the other; and in both cases the corrected image of \<^verbatim>\<open>unwarp_wf\<close> is the image
  stored as the coregistration reference, whose stored copy the output
  \<^verbatim>\<open>coreg_boldref\<close> receives, as the corrected mask is the output \<^verbatim>\<open>bold_mask\<close>.
\<close>

theorem C7_fieldmap_registration_branch:
  assumes "init_bold_fit_wf env bold_series pre fieldmap_id = Inr flow"
      and "id_truthy fieldmap_id"
      and "coreg_boldref pre = None"
  shows "(fmapreg_wf \<in> set (nodes flow)) = (\<not> truthy (dict_get (transforms pre) ''boldref2fmap'')) \<and>
         (itk_mat2txt \<in> set (nodes flow)) = (\<not> truthy (dict_get (transforms pre) ''boldref2fmap'')) \<and>
         (ds_fmapreg_wf \<in> set (nodes flow)) = (\<not> truthy (dict_get (transforms pre) ''boldref2fmap'')) \<and>
         port_value flow unwarp_wf ''inputnode.fmap2data_xfm'' =
           Some (if truthy (dict_get (transforms pre) ''boldref2fmap'')
                 then Const (dict_get (transforms pre) ''boldref2fmap'')
                 else Output ds_fmapreg_wf ''outputnode.xform'') \<and>
         unwarp_wf \<in> set (nodes flow) \<and>
         port_value flow ds_coreg_boldref_wf ''inputnode.boldref'' =
           Some (Output unwarp_wf ''outputnode.corrected'') \<and>
         port_value flow outputnode ''coreg_boldref'' =
           Some (Output ds_coreg_boldref_wf ''outputnode.boldref'') \<and>
         port_value flow outputnode ''bold_mask'' =
           Some (Output unwarp_wf ''outputnode.corrected_mask'')"
proof -
  from assms(1) obtain bold_files sb where "flow = fit_graph bold_series (bold_files ! 0) sb pre fieldmap_id"
    by (rule init_bold_fit_wf_graph)
  with nodes_fmapreg[OF assms(3,2)] nodes_unwarp[OF assms(3,2)]
    value_unwarp_xfm[OF assms(3,2)] value_ds_coreg_boldref[OF assms(3,2)]
    value_coreg_output[OF assms(3)] value_bold_mask[OF assms(3,2)]
  show ?thesis by simp
qed

text \<open>The reference that is enhanced.\<close>

lemma sorted_by_echo_time_set:
  "sorted_by_echo_time md fs = Inr xs \<Longrightarrow> set xs = set fs \<and> length xs = length fs"
  unfolding sorted_by_echo_time_def by (auto split: if_splits)

lemma sorted_by_echo_time_first:
  assumes "sorted_by_echo_time md fs = Inr xs" and "f \<in> set fs"
  shows "the (EchoTime (md (xs ! 0))) \<le> the (EchoTime (md f))"
proof (cases "length fs \<le> 1")
  case True
  with assms(1) have "xs = fs" unfolding sorted_by_echo_time_def by simp
  moreover from True assms(2) have "fs = [f]" by (cases fs) auto
  ultimately show ?thesis by simp
next
  case False
  let ?k = "\<lambda>f. the (EchoTime (md f))"
  from False assms(1) have xs: "xs = sort_key ?k fs"
    unfolding sorted_by_echo_time_def by (auto split: if_splits)
  then have s: "sorted (map ?k xs)" by simp
  from xs assms(2) have "f \<in> set xs" by simp
  then obtain i where i: "i < length xs" "xs ! i = f" by (auto simp: in_set_conv_nth)
  from i have l: "0 < length xs" by auto
  from s i have "map ?k xs ! 0 \<le> map ?k xs ! i"
    by (intro sorted_nth_mono) simp_all
  with i l show ?thesis by simp
qed

lemma value_enhance_in_file:
  assumes c: "coreg_boldref pre = None"
  shows "port_value (fit_graph bs b sb pre fid) enhance_boldref_wf ''inputnode.in_file'' =
     Some (select_ref (Const (PyList sb))
             (case hmc_boldref pre of
                None \<Rightarrow> Output hmc_boldref_wf ''outputnode.boldref''
              | Some a \<Rightarrow> Const a))"
proof -
  have "receives (Suc (Suc (Suc 0))) (fit_graph bs b sb pre fid) enhance_boldref_wf ''inputnode.in_file'' =
     Some (select_ref (Const (PyList sb))
             (case hmc_boldref pre of
                None \<Rightarrow> Output hmc_boldref_wf ''outputnode.boldref''
              | Some a \<Rightarrow> Const a))"
    by (simp add: in_enhance_in_file[OF c] in_fmapref_sbref_files as_fmapref_sbref_files[OF c]
        in_fmapref_boldref_files[OF c] in_hmcref_boldref as_hmcref_boldref split: option.splits)
  then show ?thesis by (rule fit_port_valueI) simp
qed

text \<open>
  C10. When the coregistration reference is built (\<^verbatim>\<open>coreg_boldref\<close> is not cached) the
  input of the contrast enhancement is the first single-band reference, if there is one: a
  file of the layout's answer whose echo time is the least; the reference of the head
  motion correction (cached or computed) is the input only when there is none.
\<close>

theorem C10_sbref_preferred:
  assumes "init_bold_fit_wf env bold_series pre fieldmap_id = Inr flow"
      and "coreg_boldref pre = None"
      and "sorted_by_echo_time (get_metadata env) bold_series = Inr bold_files"
      and "get_sbrefs env bold_files = Inr sbref_files"
  shows "(sbref_files \<noteq> [] \<longrightarrow>
            port_value flow enhance_boldref_wf ''inputnode.in_file'' =
              Some (Const (PyStr (sbref_files ! 0))) \<and>
            sbref_files ! 0 \<in> set (layout_get_sbref env bold_files) \<and>
            (\<forall>f \<in> set (layout_get_sbref env bold_files).
               the (EchoTime (get_metadata env (sbref_files ! 0))) \<le>
               the (EchoTime (get_metadata env f)))) \<and>
         (sbref_files = [] \<longrightarrow>
            layout_get_sbref env bold_files = [] \<and>
            port_value flow enhance_boldref_wf ''inputnode.in_file'' =
              Some (wire_first
                      (case hmc_boldref pre of
                         None \<Rightarrow> Output hmc_boldref_wf ''outputnode.boldref''
                       | Some a \<Rightarrow> Const a)))"
proof -
  from assms(1,3,4) have g: "flow = fit_graph bold_series (bold_files ! 0) sbref_files pre fieldmap_id"
    unfolding init_bold_fit_wf_def by (auto split: list.splits option.splits)
  have v: "port_value flow enhance_boldref_wf ''inputnode.in_file'' =
     Some (select_ref (Const (PyList sbref_files))
             (case hmc_boldref pre of
                None \<Rightarrow> Output hmc_boldref_wf ''outputnode.boldref''
              | Some a \<Rightarrow> Const a))"
    unfolding g by (rule value_enhance_in_file[OF assms(2)])
  from assms(4) have s: "sorted_by_echo_time (get_metadata env) (layout_get_sbref env bold_files) = Inr sbref_files"
    by (simp add: get_sbrefs_def)
  note st = sorted_by_echo_time_set[OF s]
  show ?thesis
  proof (intro conjI impI ballI)
    assume ne: "sbref_files \<noteq> []"
    then obtain x xs where x: "sbref_files = x # xs" by (cases sbref_files) auto
    show "port_value flow enhance_boldref_wf ''inputnode.in_file'' = Some (Const (PyStr (sbref_files ! 0)))"
      unfolding v by (simp add: select_ref_def x)
    from ne have "sbref_files ! 0 \<in> set sbref_files" by (simp add: x)
    with st show "sbref_files ! 0 \<in> set (layout_get_sbref env bold_files)" by simp
  next
    fix f assume "sbref_files \<noteq> []" and "f \<in> set (layout_get_sbref env bold_files)"
    from sorted_by_echo_time_first[OF s this(2)]
    show "the (EchoTime (get_metadata env (sbref_files ! 0))) \<le> the (EchoTime (get_metadata env f))" .
  next
    assume e: "sbref_files = []"
    with st show "layout_get_sbref env bold_files = []" by simp
    show "port_value flow enhance_boldref_wf ''inputnode.in_file'' =
              Some (wire_first
                      (case hmc_boldref pre of
                         None \<Rightarrow> Output hmc_boldref_wf ''outputnode.boldref''
                       | Some a \<Rightarrow> Const a))"
      unfolding v by (simp add: select_ref_def e)
  qed
qed

text \<open>The examples.\<close>

lemma example_sorted_run1:
  "sorted_by_echo_time (get_metadata example_bold_env) example_run1 = Inr example_run1"
  by (simp add: sorted_by_echo_time_def example_run1_def)

lemma example_get_sbrefs:
  "get_sbrefs example_bold_env example_run1 = Inr example_sbrefs"
  by (simp add: get_sbrefs_def sorted_by_echo_time_def example_bold_env_def example_run1_def
      example_sbrefs_def example_metadata_def example_echo_time_def)

lemma example_fit_run:
  "init_bold_fit_wf example_bold_env example_run1 pre fid = Inr (example_fit pre fid)"
proof -
  have d: "RepetitionTime (get_metadata example_bold_env ''func/run-1_bold.nii.gz'') = Some 2"
    by (simp add: example_bold_env_def example_metadata_def)
  show ?thesis
    by (simp add: init_bold_fit_wf_def example_sorted_run1[unfolded example_run1_def]
        example_get_sbrefs[unfolded example_run1_def] d example_fit_def example_run1_def)
qed

section \<open>Properties of the native workflow\<close>

lemmas native_defs = native_graph_def native_stc_def native_fmap_select_def
  native_resample_def native_outputs_def

lemma native_in_motion_xfm:
  "incoming (native_graph bold_files bold_file run_stc fid) outputnode ''motion_xfm'' =
     (if length bold_files > 1 then [] else [(inputnode, ''motion_xfm'')])"
  by (simp add: native_defs incoming_simps incoming_if ite_def Let_def)

lemma native_as_motion_xfm:
  "assigned (native_graph bold_files bold_file run_stc fid) outputnode ''motion_xfm'' = Undefined"
  by (simp add: native_defs assigned_assigned_or assigned_or_simps ite_def Let_def)

lemma native_value_motion_xfm:
  "length bold_files > 1 \<Longrightarrow>
   port_value (native_graph bold_files bold_file run_stc fid) outputnode ''motion_xfm'' =
     Some Undefined"
proof -
  assume m: "length bold_files > 1"
  have "receives (Suc 0) (native_graph bold_files bold_file run_stc fid) outputnode ''motion_xfm'' =
        Some Undefined"
    using m by (simp add: native_in_motion_xfm native_as_motion_xfm)
  then show ?thesis by (rule port_valueI) simp
qed

lemma init_bold_native_wf_graph:
  assumes "init_bold_native_wf env bold_series fid = Inr flow"
      and "listify bold_series = PyList files"
  obtains bold_files run_stc where
    "sorted_by_echo_time (get_metadata env) files = Inr bold_files"
    "bold_files \<noteq> []"
    "length bold_files \<noteq> 2"
    "flow = native_graph bold_files (bold_files ! 0) run_stc fid"
  using assms unfolding init_bold_native_wf_def
  by (auto simp: Let_def split: sum.splits list.splits if_splits)

lemma native_result:
  assumes "listify bold_series = PyList files"
      and "sorted_by_echo_time (get_metadata env) files = Inr (b # bs)"
  shows "init_bold_native_wf env bold_series fid =
      (if bs \<noteq> [] \<and> card (img_shape env ` set (b # bs)) \<noteq> 1 then
         Inl (RuntimeError
                (MismatchingShapes (map (\<lambda>echo. (basename echo, img_shape env echo)) (b # bs))))
       else if length bs = 1 then Inl (RuntimeError RequiresThreeEchos)
       else Inr (native_graph (b # bs) b
              ((case SliceTiming (get_metadata env b) of None \<Rightarrow> False | Some st \<Rightarrow> st \<noteq> [])
               \<and> ''slicetiming'' \<notin> set (ignore env)) fid))"
  by (cases bs) (simp_all add: init_bold_native_wf_def assms Let_def)

text \<open>
  C8. In the native workflow of a multi-echo series (which has three or more echos when the
  workflow is built) no edge enters the field \<^verbatim>\<open>motion_xfm\<close> of \<^verbatim>\<open>outputnode\<close> and
  no input is assigned to it: the field stays undefined. For a single echo the field is
  fed by the field \<^verbatim>\<open>motion_xfm\<close> of \<^verbatim>\<open>inputnode\<close>.
\<close>

theorem C8_motion_xfm_not_forwarded:
  assumes "init_bold_native_wf env bold_series fieldmap_id = Inr flow"
      and "listify bold_series = PyList files"
  shows "(length files > 1 \<longrightarrow>
            length files \<ge> 3 \<and>
            incoming flow outputnode ''motion_xfm'' = [] \<and>
            assigned flow outputnode ''motion_xfm'' = Undefined \<and>
            port_value flow outputnode ''motion_xfm'' = Some Undefined) \<and>
         (length files = 1 \<longrightarrow>
            incoming flow outputnode ''motion_xfm'' = [(inputnode, ''motion_xfm'')])"
proof -
  from assms obtain bold_files run_stc where
    s: "sorted_by_echo_time (get_metadata env) files = Inr bold_files" and
    t: "length bold_files \<noteq> 2" and
    g: "flow = native_graph bold_files (bold_files ! 0) run_stc fieldmap_id"
    by (rule init_bold_native_wf_graph)
  from sorted_by_echo_time_set[OF s] have l: "length bold_files = length files" by simp
  show ?thesis
  proof (intro conjI impI)
    assume m: "length files > 1"
    with t l show "length files \<ge> 3" by auto
    from m l show "incoming flow outputnode ''motion_xfm'' = []"
      unfolding g by (simp add: native_in_motion_xfm)
    show "assigned flow outputnode ''motion_xfm'' = Undefined"
      unfolding g by (rule native_as_motion_xfm)
    from m l show "port_value flow outputnode ''motion_xfm'' = Some Undefined"
      unfolding g by (simp add: native_value_motion_xfm)
  next
    assume "length files = 1"
    with l show "incoming flow outputnode ''motion_xfm'' = [(inputnode, ''motion_xfm'')]"
      unfolding g by (simp add: native_in_motion_xfm)
  qed
qed

text \<open>
  C6, as amended. For a series of two or more echos whose files can be sorted by echo
  time: if the shapes of the images are not all the same, the native workflow fails with
  the error of mismatching shapes, whose message lists every file of the series with its
  shape (also when there are exactly two echos); if the shapes agree and there are exactly
  two echos, it fails with the error that three echos are required.
\<close>

theorem C6_echo_checks:
  assumes "listify bold_series = PyList files"
      and "sorted_by_echo_time (get_metadata env) files = Inr bold_files"
      and "length files \<ge> 2"
  shows "(card (img_shape env ` set files) \<noteq> 1 \<longrightarrow>
            init_bold_native_wf env bold_series fieldmap_id =
              Inl (RuntimeError
                     (MismatchingShapes
                        (map (\<lambda>echo. (basename echo, img_shape env echo)) bold_files))) \<and>
            set bold_files = set files \<and> length bold_files = length files) \<and>
         (card (img_shape env ` set files) = 1 \<and> length files = 2 \<longrightarrow>
            init_bold_native_wf env bold_series fieldmap_id = Inl (RuntimeError RequiresThreeEchos))"
proof -
  note st = sorted_by_echo_time_set[OF assms(2)]
  from st assms(3) have m: "length bold_files > 1" by simp
  then obtain b bs where b: "bold_files = b # bs" by (cases bold_files) auto
  have sh: "set (map (img_shape env) bold_files) = img_shape env ` set files"
    using st by simp
  have r: "init_bold_native_wf env bold_series fieldmap_id =
      (if card (img_shape env ` set files) \<noteq> 1 then
         Inl (RuntimeError
                (MismatchingShapes (map (\<lambda>echo. (basename echo, img_shape env echo)) bold_files)))
       else if length files = 2 then Inl (RuntimeError RequiresThreeEchos)
       else Inr (native_graph bold_files b
              ((case SliceTiming (get_metadata env b) of None \<Rightarrow> False | Some st \<Rightarrow> st \<noteq> [])
               \<and> ''slicetiming'' \<notin> set (ignore env)) fieldmap_id))"
    using m st sh assms(3)
    by (simp add: init_bold_native_wf_def assms(1) assms(2) Let_def b)
  show ?thesis using st by (simp add: r)
qed

section \<open>The properties on the examples\<close>

lemma example_echo_times:
  "EchoTime (get_metadata example_bold_env f) = example_echo_time f"
  by (simp add: example_bold_env_def example_metadata_def)

lemma example_sorted_run2:
  "sorted_by_echo_time (get_metadata example_bold_env) example_run2 = Inr example_run2_sorted"
  by (simp add: sorted_by_echo_time_def example_echo_times example_echo_time_def
      example_run2_def example_run2_sorted_def)

lemma example_sorted_run3:
  "sorted_by_echo_time (get_metadata example_bold_env) example_run3 = Inr example_run3"
  by (simp add: sorted_by_echo_time_def example_echo_times example_echo_time_def example_run3_def)

lemma example_sorted_run4:
  "sorted_by_echo_time (get_metadata example_bold_env) example_run4 = Inr example_run4"
  by (simp add: sorted_by_echo_time_def example_echo_times example_echo_time_def example_run4_def)

lemma example_shapes_run3: "card (img_shape example_bold_env ` set example_run3) = 2"
  by (simp add: example_bold_env_def example_run3_def)

lemma example_shapes_run4: "card (img_shape example_bold_env ` set example_run4) = 1"
  by (simp add: example_bold_env_def example_run4_def)

lemma example_shapes_run2: "card (img_shape example_bold_env ` set example_run2_sorted) = 1"
  by (simp add: example_bold_env_def example_run2_sorted_def)

lemma example_native_run2:
  "init_bold_native_wf example_bold_env (PyList example_run2) None = Inr example_native2"
proof -
  have l: "listify (PyList example_run2) = PyList example_run2" by simp
  note r = native_result[OF l example_sorted_run2[unfolded example_run2_sorted_def], of None]
  show ?thesis
    unfolding r example_native2_def example_run2_sorted_def
    by (simp add: example_bold_env_def example_metadata_def)
qed

lemma example_native_run1:
  "init_bold_native_wf example_bold_env (PyStr ''func/run-1_bold.nii.gz'') None =
     Inr example_native1"
proof -
  have l: "listify (PyStr ''func/run-1_bold.nii.gz'') = PyList [''func/run-1_bold.nii.gz'']"
    by simp
  note r = native_result[OF l example_sorted_run1[unfolded example_run1_def], of None]
  show ?thesis
    unfolding r example_native1_def example_run1_def
    by (simp add: example_bold_env_def example_metadata_def)
qed

theorem C8_motion_xfm_not_forwarded_witness:
  "init_bold_native_wf example_bold_env (PyList example_run2) None = Inr example_native2 \<and>
   listify (PyList example_run2) = PyList example_run2 \<and>
   length example_run2 = 3 \<and>
   incoming example_native2 outputnode ''motion_xfm'' = [] \<and>
   port_value example_native2 outputnode ''motion_xfm'' = Some Undefined \<and>
   init_bold_native_wf example_bold_env (PyStr ''func/run-1_bold.nii.gz'') None =
     Inr example_native1 \<and>
   listify (PyStr ''func/run-1_bold.nii.gz'') = PyList [''func/run-1_bold.nii.gz''] \<and>
   incoming example_native1 outputnode ''motion_xfm'' = [(inputnode, ''motion_xfm'')]"
proof -
  have l2: "listify (PyList example_run2) = PyList example_run2" by simp
  have n2: "length example_run2 = 3" by (simp add: example_run2_def)
  have l1: "listify (PyStr ''func/run-1_bold.nii.gz'') = PyList [''func/run-1_bold.nii.gz'']"
    by simp
  from C8_motion_xfm_not_forwarded[OF example_native_run2 l2] n2
  have a: "incoming example_native2 outputnode ''motion_xfm'' = []"
    and b: "port_value example_native2 outputnode ''motion_xfm'' = Some Undefined"
    by simp_all
  from C8_motion_xfm_not_forwarded[OF example_native_run1 l1]
  have c: "incoming example_native1 outputnode ''motion_xfm'' = [(inputnode, ''motion_xfm'')]"
    by simp
  from a b c l2 n2 l1 example_native_run2 example_native_run1 show ?thesis by simp
qed

text \<open>
  The claim that two echos always give the error of insufficient echos fails: the two
  echos of the third run differ in shape, and the native workflow fails with the error of
  mismatching shapes.
\<close>

theorem C6_two_echoes_counterexample:
  "length example_run3 = 2 \<and>
   init_bold_native_wf example_bold_env (PyList example_run3) None =
     Inl (RuntimeError
            (MismatchingShapes
               [(''run-3_echo-1_bold.nii.gz'', [64, 64, 30, 100]),
                (''run-3_echo-2_bold.nii.gz'', [64, 64, 30, 99])])) \<and>
   init_bold_native_wf example_bold_env (PyList example_run3) None \<noteq>
     Inl (RuntimeError RequiresThreeEchos)"
proof -
  have l: "listify (PyList example_run3) = PyList example_run3" by simp
  have s: "sorted_by_echo_time (get_metadata example_bold_env) example_run3 =
             Inr [''func/run-3_echo-1_bold.nii.gz'', ''func/run-3_echo-2_bold.nii.gz'']"
    using example_sorted_run3 by (simp add: example_run3_def)
  note r = native_result[OF l s, of None]
  have n: "length example_run3 = 2" by (simp add: example_run3_def)
  show ?thesis
    unfolding r
    by (simp add: n example_bold_env_def basename_def)
qed

theorem C6_echo_checks_witness:
  "listify (PyList example_run4) = PyList example_run4 \<and>
   sorted_by_echo_time (get_metadata example_bold_env) example_run4 = Inr example_run4 \<and>
   length example_run4 = 2 \<and>
   card (img_shape example_bold_env ` set example_run4) = 1 \<and>
   init_bold_native_wf example_bold_env (PyList example_run4) None =
     Inl (RuntimeError RequiresThreeEchos) \<and>
   listify (PyList example_run3) = PyList example_run3 \<and>
   sorted_by_echo_time (get_metadata example_bold_env) example_run3 = Inr example_run3 \<and>
   length example_run3 = 2 \<and>
   card (img_shape example_bold_env ` set example_run3) = 2 \<and>
   init_bold_native_wf example_bold_env (PyList example_run3) None =
     Inl (RuntimeError
            (MismatchingShapes
               (map (\<lambda>echo. (basename echo, img_shape example_bold_env echo)) example_run3)))"
proof -
  have l4: "listify (PyList example_run4) = PyList example_run4" by simp
  have n4: "length example_run4 = 2" by (simp add: example_run4_def)
  then have g4: "length example_run4 \<ge> 2" by simp
  have l3: "listify (PyList example_run3) = PyList example_run3" by simp
  have n3: "length example_run3 = 2" by (simp add: example_run3_def)
  then have g3: "length example_run3 \<ge> 2" by simp
  from C6_echo_checks[OF l4 example_sorted_run4 g4, of None] example_shapes_run4 n4
  have a: "init_bold_native_wf example_bold_env (PyList example_run4) None =
     Inl (RuntimeError RequiresThreeEchos)"
    by simp
  from C6_echo_checks[OF l3 example_sorted_run3 g3, of None] example_shapes_run3
  have b: "init_bold_native_wf example_bold_env (PyList example_run3) None =
     Inl (RuntimeError
            (MismatchingShapes
               (map (\<lambda>echo. (basename echo, img_shape example_bold_env echo)) example_run3)))"
    by simp
  from a b l4 n4 l3 n3 example_sorted_run3 example_sorted_run4 example_shapes_run3 example_shapes_run4
  show ?thesis by simp
qed


theorem C1_cached_slot_reused_witness:
  "init_bold_fit_wf example_bold_env example_run1 full_cache None = Inr (example_fit full_cache None) \<and>
   cached full_cache Hmc_boldref = Some (PyStr ''desc-hmc_boldref.nii.gz'') \<and>
   cached full_cache Transforms_hmc = Some (PyStr ''from-orig_to-boldref_xfm.txt'') \<and>
   cached full_cache Coreg_boldref = Some (PyStr ''desc-coreg_boldref.nii.gz'') \<and>
   cached full_cache Transforms_boldref2anat = Some (PyStr ''from-boldref_to-T1w_xfm.txt'') \<and>
   set [hmc_boldref_wf, ds_hmc_boldref_wf] \<inter> set (nodes (example_fit full_cache None)) = {} \<and>
   set [bold_hmc_wf, ds_hmc_wf] \<inter> set (nodes (example_fit full_cache None)) = {} \<and>
   set [bold_reg_wf, ds_boldreg_wf] \<inter> set (nodes (example_fit full_cache None)) = {} \<and>
   set (producers Coreg_boldref) \<inter> set (nodes (example_fit full_cache None)) = {} \<and>
   port_value (example_fit full_cache None) outputnode ''hmc_boldref'' =
     Some (Const (PyStr ''desc-hmc_boldref.nii.gz'')) \<and>
   port_value (example_fit full_cache None) outputnode ''motion_xfm'' =
     Some (Const (PyStr ''from-orig_to-boldref_xfm.txt'')) \<and>
   port_value (example_fit full_cache None) outputnode ''coreg_boldref'' =
     Some (Const (PyStr ''desc-coreg_boldref.nii.gz'')) \<and>
   port_value (example_fit full_cache None) outputnode ''boldref2anat_xfm'' =
     Some (Const (PyStr ''from-boldref_to-T1w_xfm.txt''))"
proof -
  have c1: "cached full_cache Hmc_boldref = Some (PyStr ''desc-hmc_boldref.nii.gz'')"
    by (simp add: full_cache_def)
  have c2: "cached full_cache Transforms_hmc = Some (PyStr ''from-orig_to-boldref_xfm.txt'')"
    by (simp add: full_cache_def dict_get_def)
  have c3: "cached full_cache Coreg_boldref = Some (PyStr ''desc-coreg_boldref.nii.gz'')"
    by (simp add: full_cache_def)
  have c4: "cached full_cache Transforms_boldref2anat = Some (PyStr ''from-boldref_to-T1w_xfm.txt'')"
    by (simp add: full_cache_def dict_get_def)
  note r = example_fit_run[of full_cache None]
  from C1_cached_slot_reused[OF r c1] C1_cached_slot_reused[OF r c2]
    C1_cached_slot_reused[OF r c3] C1_cached_slot_reused[OF r c4]
  show ?thesis using r c1 c2 c3 c4 by simp
qed

theorem C9_inputnode_always_present_witness:
  "init_bold_fit_wf example_bold_env example_run1 full_cache None = Inr (example_fit full_cache None) \<and>
   inputnode \<in> set (nodes (example_fit full_cache None)) \<and>
   first_node (example_fit full_cache None) = Some inputnode \<and>
   summary \<in> set (nodes (example_fit full_cache None)) \<and>
   func_fit_reports_wf \<in> set (nodes (example_fit full_cache None)) \<and>
   (summary, ''out_report'', func_fit_reports_wf, ''inputnode.summary_report'')
     \<in> set (edges (example_fit full_cache None))"
  using C9_inputnode_always_present[OF example_fit_run[of full_cache None]]
    example_fit_run[of full_cache None]
  by simp

theorem C7_fieldmap_registration_branch_witness:
  "init_bold_fit_wf example_bold_env example_run1 empty_cache (Some ''fmap_0'') =
     Inr (example_fit empty_cache (Some ''fmap_0'')) \<and>
   init_bold_fit_wf example_bold_env example_run1 fmapreg_cache (Some ''fmap_0'') =
     Inr (example_fit fmapreg_cache (Some ''fmap_0'')) \<and>
   id_truthy (Some ''fmap_0'') \<and>
   coreg_boldref empty_cache = None \<and> coreg_boldref fmapreg_cache = None \<and>
   fmapreg_wf \<in> set (nodes (example_fit empty_cache (Some ''fmap_0''))) \<and>
   port_value (example_fit empty_cache (Some ''fmap_0'')) unwarp_wf ''inputnode.fmap2data_xfm'' =
     Some (Output ds_fmapreg_wf ''outputnode.xform'') \<and>
   fmapreg_wf \<notin> set (nodes (example_fit fmapreg_cache (Some ''fmap_0''))) \<and>
   port_value (example_fit fmapreg_cache (Some ''fmap_0'')) unwarp_wf ''inputnode.fmap2data_xfm'' =
     Some (Const (PyStr ''from-boldref_to-fmap_xfm.txt'')) \<and>
   port_value (example_fit fmapreg_cache (Some ''fmap_0'')) ds_coreg_boldref_wf ''inputnode.boldref'' =
     Some (Output unwarp_wf ''outputnode.corrected'') \<and>
   port_value (example_fit empty_cache (Some ''fmap_0'')) ds_coreg_boldref_wf ''inputnode.boldref'' =
     Some (Output unwarp_wf ''outputnode.corrected'')"
proof -
  have t: "id_truthy (Some ''fmap_0'')" by simp
  have e: "coreg_boldref empty_cache = None" by (simp add: empty_cache_def)
  have f: "coreg_boldref fmapreg_cache = None" by (simp add: fmapreg_cache_def)
  have xe: "\<not> truthy (dict_get (transforms empty_cache) ''boldref2fmap'')"
    by (simp add: empty_cache_def dict_get_def)
  have xf: "dict_get (transforms fmapreg_cache) ''boldref2fmap'' = PyStr ''from-boldref_to-fmap_xfm.txt''"
    by (simp add: fmapreg_cache_def dict_get_def)
  note re = example_fit_run[of empty_cache "Some ''fmap_0''"]
  note rf = example_fit_run[of fmapreg_cache "Some ''fmap_0''"]
  from C7_fieldmap_registration_branch[OF re t e] C7_fieldmap_registration_branch[OF rf t f]
  show ?thesis using re rf t e f xe xf by simp
qed

lemma example_fit_run4:
  "init_bold_fit_wf example_bold_env example_run4 pre fid = Inr (example_fit4 pre fid)"
proof -
  have d: "RepetitionTime (get_metadata example_bold_env ''func/run-4_echo-1_bold.nii.gz'') = Some 2"
    by (simp add: example_bold_env_def example_metadata_def)
  have g: "get_sbrefs example_bold_env example_run4 = Inr []"
    by (simp add: get_sbrefs_def sorted_by_echo_time_def example_bold_env_def example_run4_def)
  show ?thesis
    unfolding init_bold_fit_wf_def example_sorted_run4
    by (simp add: g d example_fit4_def) (simp add: example_run4_def d)
qed

theorem C10_sbref_preferred_witness:
  "init_bold_fit_wf example_bold_env example_run1 empty_cache None =
     Inr (example_fit empty_cache None) \<and>
   coreg_boldref empty_cache = None \<and>
   sorted_by_echo_time (get_metadata example_bold_env) example_run1 = Inr example_run1 \<and>
   get_sbrefs example_bold_env example_run1 = Inr example_sbrefs \<and>
   layout_get_sbref example_bold_env example_run1 =
     [''func/run-1_echo-2_sbref.nii.gz'', ''func/run-1_echo-1_sbref.nii.gz''] \<and>
   port_value (example_fit empty_cache None) enhance_boldref_wf ''inputnode.in_file'' =
     Some (Const (PyStr ''func/run-1_echo-1_sbref.nii.gz'')) \<and>
   init_bold_fit_wf example_bold_env example_run4 empty_cache None =
     Inr (example_fit4 empty_cache None) \<and>
   sorted_by_echo_time (get_metadata example_bold_env) example_run4 = Inr example_run4 \<and>
   get_sbrefs example_bold_env example_run4 = Inr [] \<and>
   port_value (example_fit4 empty_cache None) enhance_boldref_wf ''inputnode.in_file'' =
     Some (Output hmc_boldref_wf ''outputnode.boldref'')"
proof -
  have e: "coreg_boldref empty_cache = None" by (simp add: empty_cache_def)
  have hm: "hmc_boldref empty_cache = None" by (simp add: empty_cache_def)
  have l: "layout_get_sbref example_bold_env example_run1 =
     [''func/run-1_echo-2_sbref.nii.gz'', ''func/run-1_echo-1_sbref.nii.gz'']"
    by (simp add: example_bold_env_def example_run1_def)
  have n: "example_sbrefs \<noteq> []" and h: "example_sbrefs ! 0 = ''func/run-1_echo-1_sbref.nii.gz''"
    by (simp_all add: example_sbrefs_def)
  have g: "get_sbrefs example_bold_env example_run4 = Inr []"
    by (simp add: get_sbrefs_def sorted_by_echo_time_def example_bold_env_def example_run4_def)
  note r = example_fit_run[of empty_cache None]
  note r4 = example_fit_run4[of empty_cache None]
  from C10_sbref_preferred[OF r e example_sorted_run1 example_get_sbrefs] n h
  have a: "port_value (example_fit empty_cache None) enhance_boldref_wf ''inputnode.in_file'' =
     Some (Const (PyStr ''func/run-1_echo-1_sbref.nii.gz''))"
    by simp
  from C10_sbref_preferred[OF r4 e example_sorted_run4 g] hm
  have b: "port_value (example_fit4 empty_cache None) enhance_boldref_wf ''inputnode.in_file'' =
     Some (Output hmc_boldref_wf ''outputnode.boldref'')"
    by simp
  from a b show ?thesis using r r4 e l g example_sorted_run1 example_sorted_run4 example_get_sbrefs
    by simp
qed

end
